theory Spec2Isabelle
  imports Complex_Main
begin

section \<open>WENOEXT: the limiter of WENOUpwindFit and the WENOBase store\<close>

text \<open>
  The development embeds two source files of the library:
  \<^item> \<^verbatim>\<open>WENOUpwindFit.H\<close>: the constructor from a mesh and a polynomial order, \<^verbatim>\<open>zeroFlux\<close>,
    \<^verbatim>\<open>weights\<close>, the templated \<^verbatim>\<open>calcLimiter\<close> and its specialisation for scalar fields;
  \<^item> \<^verbatim>\<open>WENOBase.H\<close>: the data members of the stencil store and \<^verbatim>\<open>WENOBase::instance\<close>.

  Conventions of the embedding.
  \<^item> An OpenFOAM \<^verbatim>\<open>scalar\<close> is a real number; the program computes with IEEE doubles, and
    rounding, infinities and NaN are not modelled. The statements of the claims are chosen
    so that they hold of the rounded arithmetic too. None rests on an identity of the real
    numbers that rounding breaks, such as \<open>a * x + (1 - a) * x = x\<close> or
    \<open>(x - v) + v = x\<close>: a limiting factor is 0 or 1 where a product with it has to be
    exact, a computed value is compared with the value it is computed from, or with a
    bound, up to a stated margin that leaves room for the rounding of the operations
    behind it, and where large values could overflow the statement bounds the magnitudes.
  \<^item> A \<^verbatim>\<open>label\<close> that indexes a list is a natural number.
  \<^item> Lists are read with \<open>xs ! i\<close> and written with \<open>xs[i := v]\<close>. The C++ containers have
    undefined behaviour out of range; the predicate \<open>wellFormed\<close> collects the size and
    range conditions OpenFOAM guarantees for a mesh and the fields defined on it, and the
    theorems assume it, so that no statement depends on a read out of range.
  \<^item> A data member \<^verbatim>\<open>name_\<close> of the source is the record field \<open>name\<close>.
  \<^item> The objects \<^verbatim>\<open>calcLimiter\<close> can reach (the scheme itself, the three fields it is
    given, the stencil store) form a record; each assignment of the source is an update of
    that record, and the function returns the record after its last assignment.
\<close>

subsection \<open>Mesh and fields\<close>

type_synonym scalar = real
type_synonym label = nat

record fvPatch =
  faceCells :: "label list"

record fvMesh =
  nCells :: nat
  nInternalFaces :: nat
  cells :: "label list list"
  owner :: "label list"
  neighbour :: "label list"
  boundary :: "fvPatch list"

record 'a fvsPatchField =
  coupled :: bool
  patchValues :: "'a list"

record 'a surfaceField =
  sInternal :: "'a list"
  sBoundary :: "'a fvsPatchField list"

record 'a fvPatchField =
  patchNeighbourField :: "'a list"

record 'a volField =
  internalField :: "'a list"
  vBoundary :: "'a fvPatchField list"

subsection \<open>The stencil store (WENOBase.H)\<close>

text \<open>
  The data members of \<^verbatim>\<open>WENOBase\<close>, apart from the directory name. Its \<^verbatim>\<open>polOrder_\<close> is
  the field \<open>basePolOrder\<close> (the scheme has a \<^verbatim>\<open>polOrder_\<close> of its own) and its \<^verbatim>\<open>B_\<close> the
  field \<open>oscB\<close>.
\<close>

type_synonym point = "scalar \<times> scalar \<times> scalar"
type_synonym scalarMatrix = "scalar list list"
type_synonym volIntegralType = "scalar list list list"

record WENOBase =
  dimList :: "label list list"
  basePolOrder :: int
  nDvt :: int
  stencilsID :: "int list list list"
  haloCenters :: "point list list"
  ownHalos :: "int list list"
  cellToPatchMap :: "int list list list"
  patchToProcMap :: "int list"
  volIntegralsList :: "volIntegralType list"
  intBasTrans :: "volIntegralType list list"
  refFacAr :: "scalar list list"
  JInv :: "scalarMatrix list"
  refDet :: "scalar list"
  refPoint :: "point list"
  LSmatrix :: "scalarMatrix list list"
  oscB :: "scalarMatrix list"

text \<open>
  \<^verbatim>\<open>WENOBase::instance\<close> holds a function-local static object, \<^verbatim>\<open>instance_\<close>. The static
  is the state \<open>inst\<close>: \<open>None\<close> before the first call, which constructs it; C++
  initialises such an object once. The constructor of \<^verbatim>\<open>WENOBase\<close> is defined outside the
  two headers, so it is the parameter \<open>ctor\<close>. The result is the instance returned and
  the state after the call.
\<close>

definition WENOBase_instance :: "('m \<Rightarrow> int \<Rightarrow> 's) \<Rightarrow> 'm \<Rightarrow> int \<Rightarrow> 's option \<Rightarrow> 's \<times> 's option" where
  "WENOBase_instance ctor mesh order inst =
     (case inst of
        None \<Rightarrow> (let s = ctor mesh order in (s, Some s))
      | Some s \<Rightarrow> (s, Some s))"

subsection \<open>The scheme (WENOUpwindFit.H)\<close>

record WENOUpwindFit =
  faceFlux :: "scalar surfaceField"
  polOrder :: scalar
  limFac :: scalar

text \<open>
  \<^verbatim>\<open>zeroFlux\<close> builds a surface field on the mesh with the value 0 on every face. The flag
  \<open>cpl\<close> says which patches of the mesh are coupled; the field has one patch field per
  patch of the mesh, as long as the patch.
\<close>

definition zeroFlux :: "fvMesh \<Rightarrow> (fvPatch \<Rightarrow> bool) \<Rightarrow> scalar surfaceField" where
  "zeroFlux mesh cpl =
     \<lparr> sInternal = replicate (nInternalFaces mesh) 0,
       sBoundary = map (\<lambda>p. \<lparr> coupled = cpl p,
                               patchValues = replicate (length (faceCells p)) 0 \<rparr>)
                       (boundary mesh) \<rparr>"

text \<open>
  The data member \<^verbatim>\<open>faceFlux_\<close> is a reference, \<^verbatim>\<open>const surfaceScalarField&\<close>: the scheme
  does not hold the flux, it names a field that lives elsewhere. The record above holds
  the field the reference reads, which is all \<^verbatim>\<open>weights\<close> and \<^verbatim>\<open>calcLimiter\<close> need as long
  as that field is alive. For the constructor the lifetime matters, so there the fields
  allocated with \<^verbatim>\<open>new\<close> form a heap: a list in which a field is named by its position and
  a deleted field leaves \<open>None\<close>. A reference is the position it is bound to.
\<close>

type_synonym fieldHeap = "scalar surfaceField option list"

definition newField :: "scalar surfaceField \<Rightarrow> fieldHeap \<Rightarrow> nat \<times> fieldHeap" where
  "newField f h = (length h, h @ [Some f])"

definition deleteField :: "nat \<Rightarrow> fieldHeap \<Rightarrow> fieldHeap" where
  "deleteField a h = h[a := None]"

definition readField :: "fieldHeap \<Rightarrow> nat \<Rightarrow> scalar surfaceField option" where
  "readField h a = (if a < length h then h ! a else None)"

text \<open>
  The scheme as the constructor leaves it: the position \<^verbatim>\<open>faceFlux_\<close> is bound to, and the
  two scalars \<^verbatim>\<open>polOrder_\<close> and \<^verbatim>\<open>limFac_\<close>.
\<close>

record constructedScheme =
  fluxAt :: nat
  polOrderOf :: scalar
  limFacOf :: scalar

text \<open>
  The constructor from a mesh and a polynomial order: \<^verbatim>\<open>faceFlux_(zeroFlux())\<close>,
  \<^verbatim>\<open>polOrder_(polOrder)\<close>, \<^verbatim>\<open>limFac_(0)\<close>, with an empty body.
  \<^item> \<^verbatim>\<open>zeroFlux()\<close> allocates the zero field with \<^verbatim>\<open>new\<close> and returns it in a
    \<^verbatim>\<open>tmp<surfaceScalarField>\<close>, the only owner of the field.
  \<^item> \<^verbatim>\<open>faceFlux_\<close> is bound to the field inside that \<^verbatim>\<open>tmp\<close>.
  \<^item> The \<^verbatim>\<open>tmp\<close> is a temporary of the initialiser \<^verbatim>\<open>faceFlux_(zeroFlux())\<close>. C++ destroys
    it when the initialiser is complete (binding a reference to the field it owns does
    not extend its life), and the destructor of the only owner deletes the field.

  The result is the scheme and the heap after the constructor has returned.
\<close>

definition mkWENOUpwindFit ::
  "fvMesh \<Rightarrow> (fvPatch \<Rightarrow> bool) \<Rightarrow> int \<Rightarrow> fieldHeap \<Rightarrow> constructedScheme \<times> fieldHeap" where
  "mkWENOUpwindFit mesh cpl order h =
     (let (a, h1) = newField (zeroFlux mesh cpl) h;
          this = \<lparr> fluxAt = a, polOrderOf = of_int order, limFacOf = 0 \<rparr>;
          h2 = deleteField a h1
      in (this, h2))"

text \<open>
  What the member functions of a constructed scheme work with: they read the flux through
  the reference. When the field it is bound to has been deleted the reference dangles,
  reading it is undefined behaviour, and there is no scheme to speak of: \<open>None\<close>.
\<close>

definition schemeOf :: "fieldHeap \<Rightarrow> constructedScheme \<Rightarrow> WENOUpwindFit option" where
  "schemeOf h this =
     (case readField h (fluxAt this) of
        None \<Rightarrow> None
      | Some f \<Rightarrow> Some \<lparr> faceFlux = f, polOrder = polOrderOf this, limFac = limFacOf this \<rparr>)"




subsection \<open>The objects calcLimiter can reach\<close>

record 'a evalState =
  scheme :: WENOUpwindFit
  vf :: "'a volField"
  tsfP :: "'a surfaceField"
  tsfN :: "'a surfaceField"
  wenoBase :: WENOBase

definition setInternal :: "label \<Rightarrow> 'a \<Rightarrow> 'a evalState \<Rightarrow> 'a evalState" where
  "setInternal faceI v w =
     w\<lparr> tsfP := (tsfP w)\<lparr> sInternal := (sInternal (tsfP w))[faceI := v] \<rparr> \<rparr>"

definition setBoundary :: "label \<Rightarrow> label \<Rightarrow> 'a \<Rightarrow> 'a evalState \<Rightarrow> 'a evalState" where
  "setBoundary patchI faceI v w =
     w\<lparr> tsfP := (tsfP w)\<lparr> sBoundary := (sBoundary (tsfP w))
          [patchI := (sBoundary (tsfP w) ! patchI)
             \<lparr> patchValues := (patchValues (sBoundary (tsfP w) ! patchI))[faceI := v] \<rparr>] \<rparr> \<rparr>"

subsection \<open>OpenFOAM primitives on scalars and fields\<close>

definition mag :: "scalar \<Rightarrow> scalar" where
  "mag s = \<bar>s\<bar>"

definition VGREAT :: scalar where
  "VGREAT = 10 ^ 300"

text \<open>
  \<^verbatim>\<open>max(field)\<close> and \<^verbatim>\<open>min(field)\<close>: start from the first element and combine with every
  element; on an empty field they return \<^verbatim>\<open>-VGREAT\<close> and \<^verbatim>\<open>VGREAT\<close>.
\<close>

definition fieldMax :: "scalar list \<Rightarrow> scalar" where
  "fieldMax f = (case f of [] \<Rightarrow> - VGREAT | x # xs \<Rightarrow> fold max (x # xs) x)"

definition fieldMin :: "scalar list \<Rightarrow> scalar" where
  "fieldMin f = (case f of [] \<Rightarrow> VGREAT | x # xs \<Rightarrow> fold min (x # xs) x)"

subsection \<open>calcLimiter, the specialisation for scalar fields\<close>

text \<open>
  The body of the loop over the faces of a cell: it updates the running \<open>maxP\<close> and
  \<open>minP\<close> from the provisional value of an internal face, the owner-side value when the
  cell owns the face and the neighbour-side value otherwise.
\<close>

definition scanFaceScalar ::
  "fvMesh \<Rightarrow> scalar list \<Rightarrow> scalar list \<Rightarrow> label \<Rightarrow> label \<Rightarrow> scalar \<times> scalar \<Rightarrow> scalar \<times> scalar" where
  "scanFaceScalar mesh sfP sfN cellI f mm =
     (let maxP = fst mm; minP = snd mm in
      if f < nInternalFaces mesh then
        (if cellI = owner mesh ! f then
           (if sfP ! f > maxP then (sfP ! f, minP)
            else if sfP ! f < minP then (maxP, sfP ! f)
            else (maxP, minP))
         else
           (if sfN ! f > maxP then (sfN ! f, minP)
            else if sfN ! f < minP then (maxP, sfN ! f)
            else (maxP, minP)))
      else (maxP, minP))"

text \<open>The body of the loop over the cells: the value stored in \<open>theta[cellI]\<close>.\<close>

definition cellThetaScalar ::
  "fvMesh \<Rightarrow> scalar list \<Rightarrow> scalar list \<Rightarrow> scalar list \<Rightarrow> scalar \<Rightarrow> scalar \<Rightarrow> label \<Rightarrow> scalar" where
  "cellThetaScalar mesh vfI sfP sfN maxPhi minPhi cellI =
     (let faces = cells mesh ! cellI;
          mm = fold (scanFaceScalar mesh sfP sfN cellI) faces (vfI ! cellI, vfI ! cellI);
          maxP = fst mm;
          minP = snd mm;
          argMax = (if mag (maxP - vfI ! cellI) < 1 / 10 ^ 10 then 1
                    else mag ((maxPhi - vfI ! cellI) / (maxP - vfI ! cellI)));
          argMin = (if mag (minP - vfI ! cellI) < 1 / 10 ^ 10 then 1
                    else mag ((minPhi - vfI ! cellI) / (minP - vfI ! cellI)))
      in min (min argMax argMin) 1)"

definition calcThetaScalar :: "fvMesh \<Rightarrow> scalar evalState \<Rightarrow> scalar list" where
  "calcThetaScalar mesh w =
     (let vfI = internalField (vf w);
          maxPhi = fieldMax vfI;
          minPhi = fieldMin vfI
      in fold (\<lambda>cellI theta.
                 theta[cellI := cellThetaScalar mesh vfI (sInternal (tsfP w)) (sInternal (tsfN w))
                                  maxPhi minPhi cellI])
              [0..<nCells mesh] (replicate (nCells mesh) 0))"

text \<open>The body of the loop over the internal faces (\<^verbatim>\<open>forAll(P, faceI)\<close>).\<close>

definition limitInternalScalar :: "fvMesh \<Rightarrow> scalar list \<Rightarrow> label \<Rightarrow> scalar evalState \<Rightarrow> scalar evalState" where
  "limitInternalScalar mesh theta faceI w =
     (let P = owner mesh; N = neighbour mesh;
          vfI = internalField (vf w);
          flux = sInternal (faceFlux (scheme w));
          lf = limFac (scheme w);
          sfP = sInternal (tsfP w);
          sfN = sInternal (tsfN w)
      in if flux ! faceI > 0 then
           setInternal faceI
             ((lf * (theta ! (P ! faceI) * (sfP ! faceI - vfI ! (P ! faceI)) + vfI ! (P ! faceI))
                + (1 - lf) * sfP ! faceI)
               - vfI ! (P ! faceI)) w
         else if flux ! faceI < 0 then
           setInternal faceI
             ((lf * (theta ! (N ! faceI) * (sfN ! faceI - vfI ! (N ! faceI)) + vfI ! (N ! faceI))
                + (1 - lf) * sfN ! faceI)
               - vfI ! (N ! faceI)) w
         else setInternal faceI 0 w)"

text \<open>The body of the loop over the faces of a coupled patch (\<^verbatim>\<open>forAll(pOwner, faceI)\<close>).\<close>

definition limitCoupledScalar ::
  "fvMesh \<Rightarrow> scalar list \<Rightarrow> label \<Rightarrow> label \<Rightarrow> scalar evalState \<Rightarrow> scalar evalState" where
  "limitCoupledScalar mesh theta patchI faceI w =
     (let vfI = internalField (vf w);
          lf = limFac (scheme w);
          pbtsfP = patchValues (sBoundary (tsfP w) ! patchI);
          pbtsfN = patchValues (sBoundary (tsfN w) ! patchI);
          pOwner = faceCells (boundary mesh ! patchI);
          pFaceFlux = patchValues (sBoundary (faceFlux (scheme w)) ! patchI);
          vfN = patchNeighbourField (vBoundary (vf w) ! patchI);
          own = pOwner ! faceI
      in if pFaceFlux ! faceI > 0 then
           setBoundary patchI faceI
             ((lf * (theta ! own * (pbtsfP ! faceI - vfI ! own) + vfI ! own)
                + (1 - lf) * pbtsfP ! faceI)
               - vfI ! own) w
         else if pFaceFlux ! faceI < 0 then
           setBoundary patchI faceI
             ((lf * (1 * (pbtsfN ! faceI - vfN ! faceI) + vfN ! faceI)
                + (1 - lf) * pbtsfN ! faceI)
               - vfN ! faceI) w
         else setBoundary patchI faceI 0 w)"

text \<open>The body of the loop over the patches (\<^verbatim>\<open>forAll(tsfP.boundaryField(), patchI)\<close>).\<close>

definition limitPatchScalar :: "fvMesh \<Rightarrow> scalar list \<Rightarrow> label \<Rightarrow> scalar evalState \<Rightarrow> scalar evalState" where
  "limitPatchScalar mesh theta patchI w =
     (if coupled (sBoundary (tsfP w) ! patchI) then
        fold (limitCoupledScalar mesh theta patchI)
             [0..<length (faceCells (boundary mesh ! patchI))] w
      else w)"

definition calcLimiterScalar :: "fvMesh \<Rightarrow> scalar evalState \<Rightarrow> scalar evalState" where
  "calcLimiterScalar mesh w =
     (let theta = calcThetaScalar mesh w;
          w1 = fold (limitInternalScalar mesh theta) [0..<length (owner mesh)] w
      in fold (limitPatchScalar mesh theta) [0..<length (sBoundary (tsfP w1))] w1)"

subsection \<open>calcLimiter, the template for fields with components\<close>

text \<open>
  A value of the template's \<^verbatim>\<open>Type\<close> is the list of its components; \<^verbatim>\<open>pTraits<Type>::zero\<close>
  is the list of \<open>nComp\<close> zeros. \<^verbatim>\<open>max\<close> and \<^verbatim>\<open>min\<close> of two such values work component by
  component, and so do \<^verbatim>\<open>max(field)\<close> and \<^verbatim>\<open>min(field)\<close>.
\<close>

type_synonym cmpts = "scalar list"

definition fieldMaxCmpts :: "nat \<Rightarrow> cmpts list \<Rightarrow> cmpts" where
  "fieldMaxCmpts nComp f =
     (case f of [] \<Rightarrow> replicate nComp (- VGREAT)
      | x # xs \<Rightarrow> fold (\<lambda>y m. map2 max y m) (x # xs) x)"

definition fieldMinCmpts :: "nat \<Rightarrow> cmpts list \<Rightarrow> cmpts" where
  "fieldMinCmpts nComp f =
     (case f of [] \<Rightarrow> replicate nComp VGREAT
      | x # xs \<Rightarrow> fold (\<lambda>y m. map2 min y m) (x # xs) x)"

definition scanFace ::
  "fvMesh \<Rightarrow> cmpts list \<Rightarrow> cmpts list \<Rightarrow> label \<Rightarrow> nat \<Rightarrow> label \<Rightarrow> cmpts \<times> cmpts \<Rightarrow> cmpts \<times> cmpts" where
  "scanFace mesh sfP sfN cellI cI f mm =
     (let maxP = fst mm; minP = snd mm in
      if f < nInternalFaces mesh then
        (if cellI = owner mesh ! f then
           (if sfP ! f ! cI > maxP ! cI then (maxP[cI := sfP ! f ! cI], minP)
            else if sfP ! f ! cI < minP ! cI then (maxP, minP[cI := sfP ! f ! cI])
            else (maxP, minP))
         else
           (if sfN ! f ! cI > maxP ! cI then (maxP[cI := sfN ! f ! cI], minP)
            else if sfN ! f ! cI < minP ! cI then (maxP, minP[cI := sfN ! f ! cI])
            else (maxP, minP)))
      else (maxP, minP))"

text \<open>
  The body of the loop over the components of a cell. Its state is \<open>maxP\<close>, \<open>minP\<close>
  (both set to the cell's value before the loop) and the field \<open>theta\<close>.
\<close>

definition cellThetaCmpt ::
  "fvMesh \<Rightarrow> cmpts list \<Rightarrow> cmpts list \<Rightarrow> cmpts list \<Rightarrow> cmpts \<Rightarrow> cmpts \<Rightarrow> label \<Rightarrow> nat
     \<Rightarrow> (cmpts \<times> cmpts) \<times> cmpts list \<Rightarrow> (cmpts \<times> cmpts) \<times> cmpts list" where
  "cellThetaCmpt mesh vfI sfP sfN maxPhi minPhi cellI cI st =
     (let faces = cells mesh ! cellI;
          theta = snd st;
          mm = fold (scanFace mesh sfP sfN cellI cI) faces (fst st);
          maxP = fst mm;
          minP = snd mm;
          argMax = (if mag (maxP ! cI - vfI ! cellI ! cI) < 1 / 10 ^ 10 then 1
                    else mag ((maxPhi ! cI - vfI ! cellI ! cI) / (maxP ! cI - vfI ! cellI ! cI)));
          argMin = (if mag (minP ! cI - vfI ! cellI ! cI) < 1 / 10 ^ 10 then 1
                    else mag ((minPhi ! cI - vfI ! cellI ! cI) / (minP ! cI - vfI ! cellI ! cI)))
      in (mm, theta[cellI := (theta ! cellI)[cI := min (min argMax argMin) 1]]))"

definition cellTheta ::
  "nat \<Rightarrow> fvMesh \<Rightarrow> cmpts list \<Rightarrow> cmpts list \<Rightarrow> cmpts list \<Rightarrow> cmpts \<Rightarrow> cmpts \<Rightarrow> label
     \<Rightarrow> cmpts list \<Rightarrow> cmpts list" where
  "cellTheta nComp mesh vfI sfP sfN maxPhi minPhi cellI theta =
     snd (fold (cellThetaCmpt mesh vfI sfP sfN maxPhi minPhi cellI) [0..<nComp]
            ((vfI ! cellI, vfI ! cellI), theta))"

definition calcTheta :: "nat \<Rightarrow> fvMesh \<Rightarrow> cmpts evalState \<Rightarrow> cmpts list" where
  "calcTheta nComp mesh w =
     (let vfI = internalField (vf w);
          maxPhi = fieldMaxCmpts nComp vfI;
          minPhi = fieldMinCmpts nComp vfI
      in fold (cellTheta nComp mesh vfI (sInternal (tsfP w)) (sInternal (tsfN w)) maxPhi minPhi)
              [0..<nCells mesh] (replicate (nCells mesh) (replicate nComp 0)))"

definition setInternalCmpt :: "label \<Rightarrow> nat \<Rightarrow> scalar \<Rightarrow> cmpts evalState \<Rightarrow> cmpts evalState" where
  "setInternalCmpt faceI cI v w = setInternal faceI ((sInternal (tsfP w) ! faceI)[cI := v]) w"

definition setBoundaryCmpt :: "label \<Rightarrow> label \<Rightarrow> nat \<Rightarrow> scalar \<Rightarrow> cmpts evalState \<Rightarrow> cmpts evalState" where
  "setBoundaryCmpt patchI faceI cI v w =
     setBoundary patchI faceI ((patchValues (sBoundary (tsfP w) ! patchI) ! faceI)[cI := v]) w"

text \<open>The bodies of the two component loops of an internal face.\<close>

definition limitInternalCmptP :: "fvMesh \<Rightarrow> cmpts list \<Rightarrow> label \<Rightarrow> nat \<Rightarrow> cmpts evalState \<Rightarrow> cmpts evalState" where
  "limitInternalCmptP mesh theta faceI cI w =
     (let P = owner mesh;
          vfI = internalField (vf w);
          lf = limFac (scheme w);
          sfP = sInternal (tsfP w)
      in setInternalCmpt faceI cI
           ((lf * (theta ! (P ! faceI) ! cI * (sfP ! faceI ! cI - vfI ! (P ! faceI) ! cI)
                     + vfI ! (P ! faceI) ! cI)
               + (1 - lf) * sfP ! faceI ! cI)
              - vfI ! (P ! faceI) ! cI) w)"

definition limitInternalCmptN :: "fvMesh \<Rightarrow> cmpts list \<Rightarrow> label \<Rightarrow> nat \<Rightarrow> cmpts evalState \<Rightarrow> cmpts evalState" where
  "limitInternalCmptN mesh theta faceI cI w =
     (let N = neighbour mesh;
          vfI = internalField (vf w);
          lf = limFac (scheme w);
          sfN = sInternal (tsfN w)
      in setInternalCmpt faceI cI
           ((lf * (theta ! (N ! faceI) ! cI * (sfN ! faceI ! cI - vfI ! (N ! faceI) ! cI)
                     + vfI ! (N ! faceI) ! cI)
               + (1 - lf) * sfN ! faceI ! cI)
              - vfI ! (N ! faceI) ! cI) w)"

definition limitInternal :: "nat \<Rightarrow> fvMesh \<Rightarrow> cmpts list \<Rightarrow> label \<Rightarrow> cmpts evalState \<Rightarrow> cmpts evalState" where
  "limitInternal nComp mesh theta faceI w =
     (let flux = sInternal (faceFlux (scheme w))
      in if flux ! faceI > 0 then fold (limitInternalCmptP mesh theta faceI) [0..<nComp] w
         else if flux ! faceI < 0 then fold (limitInternalCmptN mesh theta faceI) [0..<nComp] w
         else setInternal faceI (replicate nComp 0) w)"

text \<open>The bodies of the two component loops of a face of a coupled patch.\<close>

definition limitCoupledCmptP ::
  "fvMesh \<Rightarrow> cmpts list \<Rightarrow> label \<Rightarrow> label \<Rightarrow> nat \<Rightarrow> cmpts evalState \<Rightarrow> cmpts evalState" where
  "limitCoupledCmptP mesh theta patchI faceI cI w =
     (let vfI = internalField (vf w);
          lf = limFac (scheme w);
          pbtsfP = patchValues (sBoundary (tsfP w) ! patchI);
          own = faceCells (boundary mesh ! patchI) ! faceI
      in setBoundaryCmpt patchI faceI cI
           ((lf * (theta ! own ! cI * (pbtsfP ! faceI ! cI - vfI ! own ! cI) + vfI ! own ! cI)
               + (1 - lf) * pbtsfP ! faceI ! cI)
              - vfI ! own ! cI) w)"

definition limitCoupledCmptN ::
  "fvMesh \<Rightarrow> label \<Rightarrow> label \<Rightarrow> nat \<Rightarrow> cmpts evalState \<Rightarrow> cmpts evalState" where
  "limitCoupledCmptN mesh patchI faceI cI w =
     (let lf = limFac (scheme w);
          pbtsfN = patchValues (sBoundary (tsfN w) ! patchI);
          vfN = patchNeighbourField (vBoundary (vf w) ! patchI)
      in setBoundaryCmpt patchI faceI cI
           ((lf * (1 * (pbtsfN ! faceI ! cI - vfN ! faceI ! cI) + vfN ! faceI ! cI)
               + (1 - lf) * pbtsfN ! faceI ! cI)
              - vfN ! faceI ! cI) w)"

definition limitCoupled ::
  "nat \<Rightarrow> fvMesh \<Rightarrow> cmpts list \<Rightarrow> label \<Rightarrow> label \<Rightarrow> cmpts evalState \<Rightarrow> cmpts evalState" where
  "limitCoupled nComp mesh theta patchI faceI w =
     (let pFaceFlux = patchValues (sBoundary (faceFlux (scheme w)) ! patchI)
      in if pFaceFlux ! faceI > 0 then
           fold (limitCoupledCmptP mesh theta patchI faceI) [0..<nComp] w
         else if pFaceFlux ! faceI < 0 then
           fold (limitCoupledCmptN mesh patchI faceI) [0..<nComp] w
         else setBoundary patchI faceI (replicate nComp 0) w)"

definition limitPatch :: "nat \<Rightarrow> fvMesh \<Rightarrow> cmpts list \<Rightarrow> label \<Rightarrow> cmpts evalState \<Rightarrow> cmpts evalState" where
  "limitPatch nComp mesh theta patchI w =
     (if coupled (sBoundary (tsfP w) ! patchI) then
        fold (limitCoupled nComp mesh theta patchI)
             [0..<length (faceCells (boundary mesh ! patchI))] w
      else w)"

definition calcLimiter :: "fvMesh \<Rightarrow> cmpts evalState \<Rightarrow> cmpts evalState" where
  "calcLimiter mesh w =
     (let nComp = length (internalField (vf w) ! 0);
          theta = calcTheta nComp mesh w;
          w1 = fold (limitInternal nComp mesh theta) [0..<length (owner mesh)] w
      in fold (limitPatch nComp mesh theta) [0..<length (sBoundary (tsfP w1))] w1)"

subsection \<open>Well-formed inputs\<close>

text \<open>
  What OpenFOAM guarantees of a mesh: the addressing lists have the sizes the mesh
  reports, and every cell label in them names a cell.
\<close>

definition wfMesh :: "fvMesh \<Rightarrow> bool" where
  "wfMesh mesh \<longleftrightarrow>
     length (cells mesh) = nCells mesh \<and>
     length (owner mesh) = nInternalFaces mesh \<and>
     length (neighbour mesh) = nInternalFaces mesh \<and>
     (\<forall>c \<in> set (owner mesh). c < nCells mesh) \<and>
     (\<forall>c \<in> set (neighbour mesh). c < nCells mesh) \<and>
     (\<forall>p \<in> set (boundary mesh). \<forall>c \<in> set (faceCells p). c < nCells mesh)"

text \<open>A surface field of the mesh has one value per internal face and per patch face.\<close>

definition onMesh :: "fvMesh \<Rightarrow> 'a surfaceField \<Rightarrow> bool" where
  "onMesh mesh sf \<longleftrightarrow>
     length (sInternal sf) = nInternalFaces mesh \<and>
     map (\<lambda>pf. length (patchValues pf)) (sBoundary sf)
       = map (\<lambda>p. length (faceCells p)) (boundary mesh)"

text \<open>
  The objects of an evaluation fit the mesh: the three surface fields are fields of the
  mesh, the cell field has one value per cell, one patch field per patch and, on every
  patch that is coupled, one neighbour value per patch face.
\<close>

definition wellFormed :: "fvMesh \<Rightarrow> 'a evalState \<Rightarrow> bool" where
  "wellFormed mesh w \<longleftrightarrow>
     wfMesh mesh \<and>
     onMesh mesh (tsfP w) \<and> onMesh mesh (tsfN w) \<and> onMesh mesh (faceFlux (scheme w)) \<and>
     length (internalField (vf w)) = nCells mesh \<and>
     length (vBoundary (vf w)) = length (boundary mesh) \<and>
     (\<forall>i \<in> set [0..<length (boundary mesh)].
        coupled (sBoundary (tsfP w) ! i) \<longrightarrow>
          length (patchNeighbourField (vBoundary (vf w) ! i))
            = length (faceCells (boundary mesh ! i)))"

text \<open>
  In the template every value has \<open>nComp\<close> components, and the template reads the number
  of components from the first cell, so there is one.
\<close>

definition wfCmpts :: "nat \<Rightarrow> fvMesh \<Rightarrow> cmpts evalState \<Rightarrow> bool" where
  "wfCmpts nComp mesh w \<longleftrightarrow>
     0 < nCells mesh \<and>
     (\<forall>v \<in> set (internalField (vf w)). length v = nComp) \<and>
     (\<forall>v \<in> set (sInternal (tsfP w)). length v = nComp) \<and>
     (\<forall>v \<in> set (sInternal (tsfN w)). length v = nComp) \<and>
     (\<forall>pf \<in> set (sBoundary (tsfP w)). \<forall>v \<in> set (patchValues pf). length v = nComp) \<and>
     (\<forall>pf \<in> set (sBoundary (tsfN w)). \<forall>v \<in> set (patchValues pf). length v = nComp) \<and>
     (\<forall>vp \<in> set (vBoundary (vf w)). \<forall>v \<in> set (patchNeighbourField vp). length v = nComp)"


subsection \<open>Notions the properties are stated with\<close>

text \<open>
  A state is uniform with value \<open>c\<close> when every cell average and every provisional value
  of an internal face, owner side and neighbour side, is \<open>c\<close>, and on every coupled patch
  so is every provisional value and every exchanged neighbour average.
\<close>

definition uniform :: "scalar \<Rightarrow> scalar evalState \<Rightarrow> bool" where
  "uniform c w \<longleftrightarrow>
     (\<forall>x \<in> set (internalField (vf w)). x = c) \<and>
     (\<forall>x \<in> set (sInternal (tsfP w)). x = c) \<and>
     (\<forall>x \<in> set (sInternal (tsfN w)). x = c) \<and>
     (\<forall>q \<in> set [0..<length (sBoundary (tsfP w))].
        coupled (sBoundary (tsfP w) ! q) \<longrightarrow>
          (\<forall>x \<in> set (patchValues (sBoundary (tsfP w) ! q)). x = c) \<and>
          (\<forall>x \<in> set (patchValues (sBoundary (tsfN w) ! q)). x = c) \<and>
          (\<forall>x \<in> set (patchNeighbourField (vBoundary (vf w) ! q)). x = c))"






text \<open>
  A scalar as a value of one component, and a scalar state as a state of the template:
  the scheme, the store and the flags of the patches are kept.
\<close>

definition wrap :: "scalar \<Rightarrow> cmpts" where
  "wrap x = [x]"

definition wrapField :: "scalar surfaceField \<Rightarrow> cmpts surfaceField" where
  "wrapField sf =
     \<lparr> sInternal = map wrap (sInternal sf),
       sBoundary = map (\<lambda>pf. \<lparr> coupled = coupled pf, patchValues = map wrap (patchValues pf) \<rparr>)
                       (sBoundary sf) \<rparr>"

definition wrapState :: "scalar evalState \<Rightarrow> cmpts evalState" where
  "wrapState w =
     \<lparr> scheme = scheme w,
       vf = \<lparr> internalField = map wrap (internalField (vf w)),
              vBoundary = map (\<lambda>vp. \<lparr> patchNeighbourField = map wrap (patchNeighbourField vp) \<rparr>)
                              (vBoundary (vf w)) \<rparr>,
       tsfP = wrapField (tsfP w),
       tsfN = wrapField (tsfN w),
       wenoBase = wenoBase w \<rparr>"

subsection \<open>What one pass of a face loop stores\<close>

text \<open>
  The value a face receives, written once as a function of the state the loop starts
  from. The lemmas below show that the loops store exactly these values.
\<close>

definition internalValueScalar :: "fvMesh \<Rightarrow> scalar list \<Rightarrow> scalar evalState \<Rightarrow> label \<Rightarrow> scalar" where
  "internalValueScalar mesh theta w faceI =
     (let P = owner mesh ! faceI; N = neighbour mesh ! faceI;
          vfI = internalField (vf w); lf = limFac (scheme w)
      in if sInternal (faceFlux (scheme w)) ! faceI > 0 then
           lf * (theta ! P * (sInternal (tsfP w) ! faceI - vfI ! P) + vfI ! P)
             + (1 - lf) * sInternal (tsfP w) ! faceI - vfI ! P
         else if sInternal (faceFlux (scheme w)) ! faceI < 0 then
           lf * (theta ! N * (sInternal (tsfN w) ! faceI - vfI ! N) + vfI ! N)
             + (1 - lf) * sInternal (tsfN w) ! faceI - vfI ! N
         else 0)"

definition coupledValueScalar ::
  "fvMesh \<Rightarrow> scalar list \<Rightarrow> scalar evalState \<Rightarrow> label \<Rightarrow> label \<Rightarrow> scalar" where
  "coupledValueScalar mesh theta w patchI faceI =
     (let vfI = internalField (vf w); lf = limFac (scheme w);
          pbtsfP = patchValues (sBoundary (tsfP w) ! patchI);
          pbtsfN = patchValues (sBoundary (tsfN w) ! patchI);
          vfN = patchNeighbourField (vBoundary (vf w) ! patchI);
          own = faceCells (boundary mesh ! patchI) ! faceI
      in if patchValues (sBoundary (faceFlux (scheme w)) ! patchI) ! faceI > 0 then
           lf * (theta ! own * (pbtsfP ! faceI - vfI ! own) + vfI ! own)
             + (1 - lf) * pbtsfP ! faceI - vfI ! own
         else if patchValues (sBoundary (faceFlux (scheme w)) ! patchI) ! faceI < 0 then
           lf * (1 * (pbtsfN ! faceI - vfN ! faceI) + vfN ! faceI)
             + (1 - lf) * pbtsfN ! faceI - vfN ! faceI
         else 0)"

definition patchResultScalar ::
  "fvMesh \<Rightarrow> scalar list \<Rightarrow> scalar evalState \<Rightarrow> label \<Rightarrow> scalar fvsPatchField" where
  "patchResultScalar mesh theta w q =
     (let old = sBoundary (tsfP w) ! q
      in if coupled old then
           old\<lparr> patchValues := map (coupledValueScalar mesh theta w q)
                                   [0..<length (faceCells (boundary mesh ! q))] \<rparr>
         else old)"

definition limitedScalar :: "fvMesh \<Rightarrow> scalar evalState \<Rightarrow> scalar surfaceField" where
  "limitedScalar mesh w =
     (let theta = calcThetaScalar mesh w
      in \<lparr> sInternal = map (internalValueScalar mesh theta w) [0..<length (owner mesh)],
           sBoundary = map (patchResultScalar mesh theta w) [0..<length (sBoundary (tsfP w))] \<rparr>)"

definition internalCmptP :: "fvMesh \<Rightarrow> cmpts list \<Rightarrow> cmpts evalState \<Rightarrow> label \<Rightarrow> nat \<Rightarrow> scalar" where
  "internalCmptP mesh theta w faceI cI =
     (let P = owner mesh ! faceI; vfI = internalField (vf w); lf = limFac (scheme w)
      in lf * (theta ! P ! cI * (sInternal (tsfP w) ! faceI ! cI - vfI ! P ! cI) + vfI ! P ! cI)
           + (1 - lf) * sInternal (tsfP w) ! faceI ! cI - vfI ! P ! cI)"

definition internalCmptN :: "fvMesh \<Rightarrow> cmpts list \<Rightarrow> cmpts evalState \<Rightarrow> label \<Rightarrow> nat \<Rightarrow> scalar" where
  "internalCmptN mesh theta w faceI cI =
     (let N = neighbour mesh ! faceI; vfI = internalField (vf w); lf = limFac (scheme w)
      in lf * (theta ! N ! cI * (sInternal (tsfN w) ! faceI ! cI - vfI ! N ! cI) + vfI ! N ! cI)
           + (1 - lf) * sInternal (tsfN w) ! faceI ! cI - vfI ! N ! cI)"

definition internalValue :: "nat \<Rightarrow> fvMesh \<Rightarrow> cmpts list \<Rightarrow> cmpts evalState \<Rightarrow> label \<Rightarrow> cmpts" where
  "internalValue nComp mesh theta w faceI =
     (if sInternal (faceFlux (scheme w)) ! faceI > 0 then
        map (internalCmptP mesh theta w faceI) [0..<nComp]
      else if sInternal (faceFlux (scheme w)) ! faceI < 0 then
        map (internalCmptN mesh theta w faceI) [0..<nComp]
      else replicate nComp 0)"

definition coupledCmptP ::
  "fvMesh \<Rightarrow> cmpts list \<Rightarrow> cmpts evalState \<Rightarrow> label \<Rightarrow> label \<Rightarrow> nat \<Rightarrow> scalar" where
  "coupledCmptP mesh theta w patchI faceI cI =
     (let vfI = internalField (vf w); lf = limFac (scheme w);
          pbtsfP = patchValues (sBoundary (tsfP w) ! patchI);
          own = faceCells (boundary mesh ! patchI) ! faceI
      in lf * (theta ! own ! cI * (pbtsfP ! faceI ! cI - vfI ! own ! cI) + vfI ! own ! cI)
           + (1 - lf) * pbtsfP ! faceI ! cI - vfI ! own ! cI)"

definition coupledCmptN :: "cmpts evalState \<Rightarrow> label \<Rightarrow> label \<Rightarrow> nat \<Rightarrow> scalar" where
  "coupledCmptN w patchI faceI cI =
     (let lf = limFac (scheme w);
          pbtsfN = patchValues (sBoundary (tsfN w) ! patchI);
          vfN = patchNeighbourField (vBoundary (vf w) ! patchI)
      in lf * (1 * (pbtsfN ! faceI ! cI - vfN ! faceI ! cI) + vfN ! faceI ! cI)
           + (1 - lf) * pbtsfN ! faceI ! cI - vfN ! faceI ! cI)"

definition coupledValue ::
  "nat \<Rightarrow> fvMesh \<Rightarrow> cmpts list \<Rightarrow> cmpts evalState \<Rightarrow> label \<Rightarrow> label \<Rightarrow> cmpts" where
  "coupledValue nComp mesh theta w patchI faceI =
     (if patchValues (sBoundary (faceFlux (scheme w)) ! patchI) ! faceI > 0 then
        map (coupledCmptP mesh theta w patchI faceI) [0..<nComp]
      else if patchValues (sBoundary (faceFlux (scheme w)) ! patchI) ! faceI < 0 then
        map (coupledCmptN w patchI faceI) [0..<nComp]
      else replicate nComp 0)"

definition patchResult ::
  "nat \<Rightarrow> fvMesh \<Rightarrow> cmpts list \<Rightarrow> cmpts evalState \<Rightarrow> label \<Rightarrow> cmpts fvsPatchField" where
  "patchResult nComp mesh theta w q =
     (let old = sBoundary (tsfP w) ! q
      in if coupled old then
           old\<lparr> patchValues := map (coupledValue nComp mesh theta w q)
                                   [0..<length (faceCells (boundary mesh ! q))] \<rparr>
         else old)"

definition limited :: "fvMesh \<Rightarrow> cmpts evalState \<Rightarrow> cmpts surfaceField" where
  "limited mesh w =
     (let nComp = length (internalField (vf w) ! 0);
          theta = calcTheta nComp mesh w
      in \<lparr> sInternal = map (internalValue nComp mesh theta w) [0..<length (owner mesh)],
           sBoundary = map (patchResult nComp mesh theta w) [0..<length (sBoundary (tsfP w))] \<rparr>)"

text \<open>Writing a whole list of the owner-side field at once.\<close>

definition putInternal :: "'a list \<Rightarrow> 'a evalState \<Rightarrow> 'a evalState" where
  "putInternal xs w = w\<lparr> tsfP := (tsfP w)\<lparr> sInternal := xs \<rparr> \<rparr>"

definition putBoundary :: "'a fvsPatchField list \<Rightarrow> 'a evalState \<Rightarrow> 'a evalState" where
  "putBoundary ps w = w\<lparr> tsfP := (tsfP w)\<lparr> sBoundary := ps \<rparr> \<rparr>"

definition putPatch :: "label \<Rightarrow> 'a list \<Rightarrow> 'a evalState \<Rightarrow> 'a evalState" where
  "putPatch p xs w =
     putBoundary ((sBoundary (tsfP w))[p := (sBoundary (tsfP w) ! p)\<lparr> patchValues := xs \<rparr>]) w"

text \<open>Everything calcLimiter can reach apart from the owner-side field.\<close>

definition untouched :: "'a evalState \<Rightarrow> WENOUpwindFit \<times> 'a volField \<times> 'a surfaceField \<times> WENOBase" where
  "untouched w = (scheme w, vf w, tsfN w, wenoBase w)"


definition thetaInRange :: "nat \<Rightarrow> nat \<Rightarrow> cmpts list \<Rightarrow> bool" where
  "thetaInRange n nComp theta \<longleftrightarrow>
     length theta = n \<and>
     (\<forall>c < n. length (theta ! c) = nComp \<and> (\<forall>k < nComp. 0 \<le> theta ! c ! k \<and> theta ! c ! k \<le> 1))"

subsection \<open>A small mesh and a state on it\<close>

text \<open>
  Three cells in a row: face 0 lies between cells 0 and 1, face 1 between cells 1 and 2.
  Patch 0 (not coupled) holds face 2 of cell 0, patch 1 (coupled) holds face 3 of cell 2.
\<close>

definition mesh3 :: fvMesh where
  "mesh3 = \<lparr> nCells = 3, nInternalFaces = 2, cells = [[0, 2], [0, 1], [1, 3]],
             owner = [0, 1], neighbour = [1, 2],
             boundary = [\<lparr> faceCells = [0] \<rparr>, \<lparr> faceCells = [2] \<rparr>] \<rparr>"

definition emptyBase :: WENOBase where
  "emptyBase = \<lparr> dimList = [], basePolOrder = 0, nDvt = 0, stencilsID = [], haloCenters = [],
     ownHalos = [], cellToPatchMap = [], patchToProcMap = [], volIntegralsList = [],
     intBasTrans = [], refFacAr = [], JInv = [], refDet = [], refPoint = [], LSmatrix = [],
     oscB = [] \<rparr>"

definition flux3 :: "scalar surfaceField" where
  "flux3 = \<lparr> sInternal = [1, - 1],
             sBoundary = [\<lparr> coupled = False, patchValues = [1] \<rparr>,
                          \<lparr> coupled = True, patchValues = [1] \<rparr>] \<rparr>"

text \<open>
  Cell averages 0, 0, 10 and the neighbour value 10 across the coupled patch; the flux
  leaves cell 0 through face 0, enters cell 1 through face 1 and leaves cell 2 through the
  coupled face.
\<close>

definition scheme3 :: "scalar \<Rightarrow> WENOUpwindFit" where
  "scheme3 lf = \<lparr> faceFlux = flux3, polOrder = 2, limFac = lf \<rparr>"

definition w3 :: "WENOUpwindFit \<Rightarrow> scalar evalState" where
  "w3 sch =
     \<lparr> scheme = sch,
       vf = \<lparr> internalField = [0, 0, 10],
              vBoundary = [\<lparr> patchNeighbourField = [] \<rparr>, \<lparr> patchNeighbourField = [10] \<rparr>] \<rparr>,
       tsfP = \<lparr> sInternal = [5, 0],
                sBoundary = [\<lparr> coupled = False, patchValues = [7] \<rparr>,
                             \<lparr> coupled = True, patchValues = [100] \<rparr>] \<rparr>,
       tsfN = \<lparr> sInternal = [0, 10 + 5 / 10 ^ 11],
                sBoundary = [\<lparr> coupled = False, patchValues = [0] \<rparr>,
                             \<lparr> coupled = True, patchValues = [0] \<rparr>] \<rparr>,
       wenoBase = emptyBase \<rparr>"

text \<open>
  The same mesh with a uniform scalar field \<open>c\<close> (the face of the patch that is not
  coupled holds \<open>b\<close> on the owner side), and with a field of two components.
\<close>

definition u3 :: "scalar \<Rightarrow> scalar \<Rightarrow> WENOUpwindFit \<Rightarrow> scalar evalState" where
  "u3 c b sch =
     \<lparr> scheme = sch,
       vf = \<lparr> internalField = [c, c, c],
              vBoundary = [\<lparr> patchNeighbourField = [] \<rparr>, \<lparr> patchNeighbourField = [c] \<rparr>] \<rparr>,
       tsfP = \<lparr> sInternal = [c, c],
                sBoundary = [\<lparr> coupled = False, patchValues = [b] \<rparr>,
                             \<lparr> coupled = True, patchValues = [c] \<rparr>] \<rparr>,
       tsfN = \<lparr> sInternal = [c, c],
                sBoundary = [\<lparr> coupled = False, patchValues = [c] \<rparr>,
                             \<lparr> coupled = True, patchValues = [c] \<rparr>] \<rparr>,
       wenoBase = emptyBase \<rparr>"

definition v3 :: "WENOUpwindFit \<Rightarrow> cmpts evalState" where
  "v3 sch =
     \<lparr> scheme = sch,
       vf = \<lparr> internalField = [[0, 1], [0, 2], [10, 3]],
              vBoundary = [\<lparr> patchNeighbourField = [] \<rparr>, \<lparr> patchNeighbourField = [[10, 4]] \<rparr>] \<rparr>,
       tsfP = \<lparr> sInternal = [[5, 1], [0, 2]],
                sBoundary = [\<lparr> coupled = False, patchValues = [[7, 7]] \<rparr>,
                             \<lparr> coupled = True, patchValues = [[100, 5]] \<rparr>] \<rparr>,
       tsfN = \<lparr> sInternal = [[0, 2], [10, 3]],
                sBoundary = [\<lparr> coupled = False, patchValues = [[0, 0]] \<rparr>,
                             \<lparr> coupled = True, patchValues = [[0, 6]] \<rparr>] \<rparr>,
       wenoBase = emptyBase \<rparr>"

text \<open>Patch 1 of the small mesh is the coupled one; a scheme whose flux is zero on it.\<close>

definition cpl3 :: "fvPatch \<Rightarrow> bool" where
  "cpl3 p \<longleftrightarrow> faceCells p = [2]"

definition schemeZ :: "scalar \<Rightarrow> WENOUpwindFit" where
  "schemeZ lf = \<lparr> faceFlux = zeroFlux mesh3 cpl3, polOrder = 3, limFac = lf \<rparr>"

section \<open>Properties of the loops\<close>

subsection \<open>The two assignments\<close>

lemma setInternal_frame [simp]:
  "scheme (setInternal i v w) = scheme w"
  "vf (setInternal i v w) = vf w"
  "tsfN (setInternal i v w) = tsfN w"
  "wenoBase (setInternal i v w) = wenoBase w"
  "sBoundary (tsfP (setInternal i v w)) = sBoundary (tsfP w)"
  "sInternal (tsfP (setInternal i v w)) = (sInternal (tsfP w))[i := v]"
  by (simp_all add: setInternal_def)

lemma setBoundary_frame [simp]:
  "scheme (setBoundary p i v w) = scheme w"
  "vf (setBoundary p i v w) = vf w"
  "tsfN (setBoundary p i v w) = tsfN w"
  "wenoBase (setBoundary p i v w) = wenoBase w"
  "sInternal (tsfP (setBoundary p i v w)) = sInternal (tsfP w)"
  "length (sBoundary (tsfP (setBoundary p i v w))) = length (sBoundary (tsfP w))"
  by (simp_all add: setBoundary_def)

lemma setBoundary_other [simp]:
  "q \<noteq> p \<Longrightarrow> sBoundary (tsfP (setBoundary p i v w)) ! q = sBoundary (tsfP w) ! q"
  by (simp add: setBoundary_def)

lemma setBoundary_same [simp]:
  "p < length (sBoundary (tsfP w)) \<Longrightarrow>
     coupled (sBoundary (tsfP (setBoundary p i v w)) ! p) = coupled (sBoundary (tsfP w) ! p)"
  "p < length (sBoundary (tsfP w)) \<Longrightarrow>
     patchValues (sBoundary (tsfP (setBoundary p i v w)) ! p)
       = (patchValues (sBoundary (tsfP w) ! p))[i := v]"
  by (simp_all add: setBoundary_def)

lemma setInternal_twice [simp]:
  "setInternal i v (setInternal i u w) = setInternal i v w"
  by (simp add: setInternal_def)

lemma setBoundary_twice [simp]:
  "setBoundary p i v (setBoundary p i u w) = setBoundary p i v w"
  by (cases "p < length (sBoundary (tsfP w))") (simp_all add: setBoundary_def list_update_beyond)

lemma setInternal_id:
  "v = sInternal (tsfP w) ! i \<Longrightarrow> setInternal i v w = w"
  by (simp add: setInternal_def)

lemma setBoundary_id:
  "v = patchValues (sBoundary (tsfP w) ! p) ! i \<Longrightarrow> setBoundary p i v w = w"
  by (simp add: setBoundary_def)

lemma putInternal_simps [simp]:
  "scheme (putInternal xs w) = scheme w"
  "vf (putInternal xs w) = vf w"
  "tsfN (putInternal xs w) = tsfN w"
  "wenoBase (putInternal xs w) = wenoBase w"
  "sBoundary (tsfP (putInternal xs w)) = sBoundary (tsfP w)"
  "sInternal (tsfP (putInternal xs w)) = xs"
  "putInternal xs (putInternal ys w) = putInternal xs w"
  "putInternal (sInternal (tsfP w)) w = w"
  by (simp_all add: putInternal_def)

lemma putBoundary_simps [simp]:
  "scheme (putBoundary ps w) = scheme w"
  "vf (putBoundary ps w) = vf w"
  "tsfN (putBoundary ps w) = tsfN w"
  "wenoBase (putBoundary ps w) = wenoBase w"
  "sInternal (tsfP (putBoundary ps w)) = sInternal (tsfP w)"
  "sBoundary (tsfP (putBoundary ps w)) = ps"
  "putBoundary ps (putBoundary qs w) = putBoundary ps w"
  "putBoundary (sBoundary (tsfP w)) w = w"
  by (simp_all add: putBoundary_def)

lemma putPatch_simps [simp]:
  "scheme (putPatch p xs w) = scheme w"
  "vf (putPatch p xs w) = vf w"
  "tsfN (putPatch p xs w) = tsfN w"
  "wenoBase (putPatch p xs w) = wenoBase w"
  "sInternal (tsfP (putPatch p xs w)) = sInternal (tsfP w)"
  "p < length (sBoundary (tsfP w)) \<Longrightarrow> patchValues (sBoundary (tsfP (putPatch p xs w)) ! p) = xs"
  "putPatch p xs (putPatch p ys w) = putPatch p xs w"
  "putPatch p (patchValues (sBoundary (tsfP w) ! p)) w = w"
  by (cases "p < length (sBoundary (tsfP w))"; simp add: putPatch_def list_update_beyond)+

lemma setInternal_put: "setInternal i v w = putInternal ((sInternal (tsfP w))[i := v]) w"
  by (simp add: setInternal_def putInternal_def)

lemma setBoundary_put:
  "setBoundary p i v w = putPatch p ((patchValues (sBoundary (tsfP w) ! p))[i := v]) w"
  by (simp add: setBoundary_def putPatch_def putBoundary_def)

lemma putPatch_putBoundary:
  "putPatch p xs (putBoundary ys w) = putBoundary (ys[p := (ys ! p)\<lparr> patchValues := xs \<rparr>]) w"
  by (simp add: putPatch_def)

subsection \<open>A loop that assigns the elements of a list in turn\<close>

lemma map_upt_update:
  "(map (\<lambda>c. if c < n then g c else xs ! c) [0..<length xs])[n := g n]
     = map (\<lambda>c. if c < Suc n then g c else xs ! c) [0..<length xs]"
  by (rule nth_equalityI) (auto simp: nth_list_update less_Suc_eq)

lemma map_if_upt: "map (\<lambda>j. if j < n then f j else g j) [0..<n] = map f [0..<n]"
  by simp

lemma indexedLoop:
  assumes put_put: "\<And>xs ys. put xs (put ys s) = put xs s"
    and put_get: "put (get s) s = s"
    and step: "\<And>ys i. i < n \<Longrightarrow> length ys = length (get s) \<Longrightarrow> ys ! i = get s ! i \<Longrightarrow>
                 step i (put ys s) = put (ys[i := val i]) s"
    and n: "n \<le> length (get s)"
  shows "fold step [0..<n] s
           = put (map (\<lambda>j. if j < n then val j else get s ! j) [0..<length (get s)]) s"
proof -
  have "k \<le> n \<Longrightarrow>
        fold step [0..<k] s
          = put (map (\<lambda>j. if j < k then val j else get s ! j) [0..<length (get s)]) s" for k
  proof (induction k)
    case 0
    show ?case by (simp add: map_nth put_get)
  next
    case (Suc k)
    let ?ys = "map (\<lambda>j. if j < k then val j else get s ! j) [0..<length (get s)]"
    have k: "k < n" "k < length (get s)" using Suc.prems n by simp_all
    have "fold step [0..<Suc k] s = step k (put ?ys s)"
      using Suc by simp
    also have "\<dots> = put (?ys[k := val k]) s"
      using k by (intro step) simp_all
    also have "?ys[k := val k]
                 = map (\<lambda>j. if j < Suc k then val j else get s ! j) [0..<length (get s)]"
      by (rule map_upt_update)
    finally show ?case .
  qed
  then show ?thesis by simp
qed

lemma wellFormed_sizes:
  assumes "wellFormed mesh w"
  shows "length (owner mesh) = length (sInternal (tsfP w))"
    and "length (sBoundary (tsfP w)) = length (boundary mesh)"
    and "q < length (boundary mesh) \<Longrightarrow>
           length (patchValues (sBoundary (tsfP w) ! q)) = length (faceCells (boundary mesh ! q))"
proof -
  from assms have m: "wfMesh mesh" and o: "onMesh mesh (tsfP w)"
    by (simp_all add: wellFormed_def)
  from m o show "length (owner mesh) = length (sInternal (tsfP w))"
    by (simp add: wfMesh_def onMesh_def)
  from o have eq: "map (\<lambda>pf. length (patchValues pf)) (sBoundary (tsfP w))
                     = map (\<lambda>p. length (faceCells p)) (boundary mesh)"
    by (simp add: onMesh_def)
  from eq show len: "length (sBoundary (tsfP w)) = length (boundary mesh)"
    by (rule map_eq_imp_length_eq)
  assume q: "q < length (boundary mesh)"
  have "map (\<lambda>pf. length (patchValues pf)) (sBoundary (tsfP w)) ! q
          = map (\<lambda>p. length (faceCells p)) (boundary mesh) ! q"
    by (simp only: eq)
  then show "length (patchValues (sBoundary (tsfP w) ! q)) = length (faceCells (boundary mesh ! q))"
    using q len by simp
qed

subsection \<open>The specialisation for scalar fields, in closed form\<close>

lemma limitInternalScalar_eq:
  "limitInternalScalar mesh theta faceI w = setInternal faceI (internalValueScalar mesh theta w faceI) w"
  by (simp add: limitInternalScalar_def internalValueScalar_def Let_def)

lemma internalValueScalar_cong:
  "scheme w' = scheme w \<Longrightarrow> vf w' = vf w \<Longrightarrow> tsfN w' = tsfN w \<Longrightarrow>
   sInternal (tsfP w') ! faceI = sInternal (tsfP w) ! faceI \<Longrightarrow>
   internalValueScalar mesh theta w' faceI = internalValueScalar mesh theta w faceI"
  by (simp add: internalValueScalar_def Let_def)

lemma limitCoupledScalar_eq:
  "limitCoupledScalar mesh theta p i w = setBoundary p i (coupledValueScalar mesh theta w p i) w"
  by (simp add: limitCoupledScalar_def coupledValueScalar_def Let_def)

lemma coupledValueScalar_cong:
  "scheme w' = scheme w \<Longrightarrow> vf w' = vf w \<Longrightarrow> tsfN w' = tsfN w \<Longrightarrow>
   patchValues (sBoundary (tsfP w') ! p) ! i = patchValues (sBoundary (tsfP w) ! p) ! i \<Longrightarrow>
   coupledValueScalar mesh theta w' p i = coupledValueScalar mesh theta w p i"
  by (simp add: coupledValueScalar_def Let_def)

lemma internalLoopScalar_closed:
  assumes "length (owner mesh) = length (sInternal (tsfP w))"
  shows "fold (limitInternalScalar mesh theta) [0..<length (owner mesh)] w
           = putInternal (map (internalValueScalar mesh theta w) [0..<length (owner mesh)]) w"
proof -
  have "fold (limitInternalScalar mesh theta) [0..<length (owner mesh)] w
          = putInternal (map (\<lambda>j. if j < length (owner mesh) then internalValueScalar mesh theta w j
                                    else sInternal (tsfP w) ! j)
                             [0..<length (sInternal (tsfP w))]) w"
  proof (rule indexedLoop [where get = "\<lambda>s. sInternal (tsfP s)"])
    fix ys :: "scalar list" and i
    assume "ys ! i = sInternal (tsfP w) ! i"
    then have "internalValueScalar mesh theta (putInternal ys w) i = internalValueScalar mesh theta w i"
      by (intro internalValueScalar_cong) simp_all
    then show "limitInternalScalar mesh theta i (putInternal ys w)
                 = putInternal (ys[i := internalValueScalar mesh theta w i]) w"
      by (simp add: limitInternalScalar_eq setInternal_put)
  qed (simp_all add: assms)
  then show ?thesis using assms by (simp only: map_if_upt)
qed

lemma patchFaceLoopScalar_closed:
  assumes p: "p < length (sBoundary (tsfP w))"
    and n: "n = length (patchValues (sBoundary (tsfP w) ! p))"
  shows "fold (limitCoupledScalar mesh theta p) [0..<n] w
           = putPatch p (map (coupledValueScalar mesh theta w p) [0..<n]) w"
proof -
  have "fold (limitCoupledScalar mesh theta p) [0..<n] w
          = putPatch p (map (\<lambda>j. if j < n then coupledValueScalar mesh theta w p j
                                   else patchValues (sBoundary (tsfP w) ! p) ! j)
                            [0..<length (patchValues (sBoundary (tsfP w) ! p))]) w"
  proof (rule indexedLoop [where get = "\<lambda>s. patchValues (sBoundary (tsfP s) ! p)"])
    fix ys :: "scalar list" and i
    assume "ys ! i = patchValues (sBoundary (tsfP w) ! p) ! i"
    then have "coupledValueScalar mesh theta (putPatch p ys w) p i = coupledValueScalar mesh theta w p i"
      using p by (intro coupledValueScalar_cong) simp_all
    then show "limitCoupledScalar mesh theta p i (putPatch p ys w)
                 = putPatch p (ys[i := coupledValueScalar mesh theta w p i]) w"
      using p by (simp add: limitCoupledScalar_eq setBoundary_put)
  qed (simp_all add: n)
  then show ?thesis using n by (simp only: map_if_upt)
qed

lemma patchResultScalar_cong:
  "scheme w' = scheme w \<Longrightarrow> vf w' = vf w \<Longrightarrow> tsfN w' = tsfN w \<Longrightarrow>
   sBoundary (tsfP w') ! q = sBoundary (tsfP w) ! q \<Longrightarrow>
   patchResultScalar mesh theta w' q = patchResultScalar mesh theta w q"
  by (simp add: patchResultScalar_def coupledValueScalar_def Let_def)

lemma limitPatchScalar_closed:
  assumes q: "q < length (sBoundary (tsfP w))"
    and n: "coupled (sBoundary (tsfP w) ! q) \<Longrightarrow>
              length (faceCells (boundary mesh ! q)) = length (patchValues (sBoundary (tsfP w) ! q))"
  shows "limitPatchScalar mesh theta q w
           = putBoundary ((sBoundary (tsfP w))[q := patchResultScalar mesh theta w q]) w"
proof (cases "coupled (sBoundary (tsfP w) ! q)")
  case True
  show ?thesis
    using True patchFaceLoopScalar_closed [OF q n [OF True], of mesh theta]
    by (simp add: limitPatchScalar_def patchResultScalar_def putPatch_def)
next
  case False
  then show ?thesis
    by (simp add: limitPatchScalar_def patchResultScalar_def)
qed

lemma patchLoopScalar_closed:
  assumes n: "\<And>q. q < length (sBoundary (tsfP w)) \<Longrightarrow> coupled (sBoundary (tsfP w) ! q) \<Longrightarrow>
              length (faceCells (boundary mesh ! q)) = length (patchValues (sBoundary (tsfP w) ! q))"
  shows "fold (limitPatchScalar mesh theta) [0..<length (sBoundary (tsfP w))] w
           = putBoundary (map (patchResultScalar mesh theta w) [0..<length (sBoundary (tsfP w))]) w"
proof -
  let ?m = "length (sBoundary (tsfP w))"
  have "fold (limitPatchScalar mesh theta) [0..<?m] w
          = putBoundary (map (\<lambda>j. if j < ?m then patchResultScalar mesh theta w j
                                    else sBoundary (tsfP w) ! j) [0..<?m]) w"
  proof (rule indexedLoop [where get = "\<lambda>s. sBoundary (tsfP s)"])
    fix ys :: "scalar fvsPatchField list" and i
    assume i: "i < ?m" and len: "length ys = ?m" and same: "ys ! i = sBoundary (tsfP w) ! i"
    have "patchResultScalar mesh theta (putBoundary ys w) i = patchResultScalar mesh theta w i"
      using same by (intro patchResultScalar_cong) simp_all
    then show "limitPatchScalar mesh theta i (putBoundary ys w)
                 = putBoundary (ys[i := patchResultScalar mesh theta w i]) w"
      using i len same n [OF i]
      by (subst limitPatchScalar_closed) simp_all
  qed simp_all
  then show ?thesis by (simp only: map_if_upt)
qed

lemma calcLimiterScalar_closed:
  assumes wf: "wellFormed mesh w"
  shows "calcLimiterScalar mesh w = w\<lparr> tsfP := limitedScalar mesh w \<rparr>"
proof -
  let ?th = "calcThetaScalar mesh w"
  let ?w1 = "putInternal (map (internalValueScalar mesh ?th w) [0..<length (owner mesh)]) w"
  note sz = wellFormed_sizes [OF wf]
  have w1: "fold (limitInternalScalar mesh ?th) [0..<length (owner mesh)] w = ?w1"
    by (rule internalLoopScalar_closed) (rule sz)
  have "fold (limitPatchScalar mesh ?th) [0..<length (sBoundary (tsfP ?w1))] ?w1
          = putBoundary (map (patchResultScalar mesh ?th ?w1) [0..<length (sBoundary (tsfP ?w1))]) ?w1"
    by (rule patchLoopScalar_closed) (simp add: sz)
  also have "map (patchResultScalar mesh ?th ?w1) [0..<length (sBoundary (tsfP ?w1))]
               = map (patchResultScalar mesh ?th w) [0..<length (sBoundary (tsfP w))]"
  proof (rule map_cong)
    fix q
    show "patchResultScalar mesh ?th ?w1 q = patchResultScalar mesh ?th w q"
      by (rule patchResultScalar_cong) simp_all
  qed simp
  finally show ?thesis
    by (simp add: calcLimiterScalar_def Let_def w1 limitedScalar_def putBoundary_def putInternal_def)
qed

subsection \<open>The template, in closed form\<close>

lemma cmptLoopInternalP:
  assumes f: "faceI < length (sInternal (tsfP w))"
    and n: "length (sInternal (tsfP w) ! faceI) = nComp"
  shows "fold (limitInternalCmptP mesh theta faceI) [0..<nComp] w
           = setInternal faceI (map (internalCmptP mesh theta w faceI) [0..<nComp]) w"
proof -
  let ?old = "sInternal (tsfP w) ! faceI"
  have "fold (limitInternalCmptP mesh theta faceI) [0..<nComp] w
          = setInternal faceI (map (\<lambda>j. if j < nComp then internalCmptP mesh theta w faceI j
                                          else ?old ! j) [0..<length ?old]) w"
  proof (rule indexedLoop [where get = "\<lambda>s. sInternal (tsfP s) ! faceI"])
    fix ys :: cmpts and c
    assume "ys ! c = ?old ! c"
    then show "limitInternalCmptP mesh theta faceI c (setInternal faceI ys w)
                 = setInternal faceI (ys[c := internalCmptP mesh theta w faceI c]) w"
      using f by (simp add: limitInternalCmptP_def internalCmptP_def setInternalCmpt_def Let_def)
  qed (simp_all add: n setInternal_id)
  then show ?thesis using n by (simp only: map_if_upt)
qed

lemma cmptLoopInternalN:
  assumes f: "faceI < length (sInternal (tsfP w))"
    and n: "length (sInternal (tsfP w) ! faceI) = nComp"
  shows "fold (limitInternalCmptN mesh theta faceI) [0..<nComp] w
           = setInternal faceI (map (internalCmptN mesh theta w faceI) [0..<nComp]) w"
proof -
  let ?old = "sInternal (tsfP w) ! faceI"
  have "fold (limitInternalCmptN mesh theta faceI) [0..<nComp] w
          = setInternal faceI (map (\<lambda>j. if j < nComp then internalCmptN mesh theta w faceI j
                                          else ?old ! j) [0..<length ?old]) w"
  proof (rule indexedLoop [where get = "\<lambda>s. sInternal (tsfP s) ! faceI"])
    fix ys :: cmpts and c
    show "limitInternalCmptN mesh theta faceI c (setInternal faceI ys w)
                 = setInternal faceI (ys[c := internalCmptN mesh theta w faceI c]) w"
      using f by (simp add: limitInternalCmptN_def internalCmptN_def setInternalCmpt_def Let_def)
  qed (simp_all add: n setInternal_id)
  then show ?thesis using n by (simp only: map_if_upt)
qed

lemma limitInternal_eq:
  assumes "faceI < length (sInternal (tsfP w))"
    and "length (sInternal (tsfP w) ! faceI) = nComp"
  shows "limitInternal nComp mesh theta faceI w
           = setInternal faceI (internalValue nComp mesh theta w faceI) w"
  using assms
  by (simp add: limitInternal_def internalValue_def Let_def cmptLoopInternalP cmptLoopInternalN)

lemma cmptLoopCoupledP:
  assumes p: "p < length (sBoundary (tsfP w))"
    and i: "i < length (patchValues (sBoundary (tsfP w) ! p))"
    and n: "length (patchValues (sBoundary (tsfP w) ! p) ! i) = nComp"
  shows "fold (limitCoupledCmptP mesh theta p i) [0..<nComp] w
           = setBoundary p i (map (coupledCmptP mesh theta w p i) [0..<nComp]) w"
proof -
  let ?old = "patchValues (sBoundary (tsfP w) ! p) ! i"
  have "fold (limitCoupledCmptP mesh theta p i) [0..<nComp] w
          = setBoundary p i (map (\<lambda>j. if j < nComp then coupledCmptP mesh theta w p i j
                                        else ?old ! j) [0..<length ?old]) w"
  proof (rule indexedLoop [where get = "\<lambda>s. patchValues (sBoundary (tsfP s) ! p) ! i"])
    fix ys :: cmpts and c
    assume "ys ! c = ?old ! c"
    then show "limitCoupledCmptP mesh theta p i c (setBoundary p i ys w)
                 = setBoundary p i (ys[c := coupledCmptP mesh theta w p i c]) w"
      using p i by (simp add: limitCoupledCmptP_def coupledCmptP_def setBoundaryCmpt_def Let_def)
  qed (simp_all add: n setBoundary_id)
  then show ?thesis using n by (simp only: map_if_upt)
qed

lemma cmptLoopCoupledN:
  assumes p: "p < length (sBoundary (tsfP w))"
    and i: "i < length (patchValues (sBoundary (tsfP w) ! p))"
    and n: "length (patchValues (sBoundary (tsfP w) ! p) ! i) = nComp"
  shows "fold (limitCoupledCmptN mesh p i) [0..<nComp] w
           = setBoundary p i (map (coupledCmptN w p i) [0..<nComp]) w"
proof -
  let ?old = "patchValues (sBoundary (tsfP w) ! p) ! i"
  have "fold (limitCoupledCmptN mesh p i) [0..<nComp] w
          = setBoundary p i (map (\<lambda>j. if j < nComp then coupledCmptN w p i j
                                        else ?old ! j) [0..<length ?old]) w"
  proof (rule indexedLoop [where get = "\<lambda>s. patchValues (sBoundary (tsfP s) ! p) ! i"])
    fix ys :: cmpts and c
    show "limitCoupledCmptN mesh p i c (setBoundary p i ys w)
                 = setBoundary p i (ys[c := coupledCmptN w p i c]) w"
      using p i by (simp add: limitCoupledCmptN_def coupledCmptN_def setBoundaryCmpt_def Let_def)
  qed (simp_all add: n setBoundary_id)
  then show ?thesis using n by (simp only: map_if_upt)
qed

lemma limitCoupled_eq:
  assumes "p < length (sBoundary (tsfP w))"
    and "i < length (patchValues (sBoundary (tsfP w) ! p))"
    and "length (patchValues (sBoundary (tsfP w) ! p) ! i) = nComp"
  shows "limitCoupled nComp mesh theta p i w
           = setBoundary p i (coupledValue nComp mesh theta w p i) w"
  using assms
  by (simp add: limitCoupled_def coupledValue_def Let_def cmptLoopCoupledP cmptLoopCoupledN)

lemma internalValue_cong:
  "scheme w' = scheme w \<Longrightarrow> vf w' = vf w \<Longrightarrow> tsfN w' = tsfN w \<Longrightarrow>
   sInternal (tsfP w') ! i = sInternal (tsfP w) ! i \<Longrightarrow>
   internalValue nComp mesh theta w' i = internalValue nComp mesh theta w i"
  by (simp add: internalValue_def internalCmptP_def internalCmptN_def Let_def)

lemma coupledValue_cong:
  "scheme w' = scheme w \<Longrightarrow> vf w' = vf w \<Longrightarrow> tsfN w' = tsfN w \<Longrightarrow>
   patchValues (sBoundary (tsfP w') ! p) ! i = patchValues (sBoundary (tsfP w) ! p) ! i \<Longrightarrow>
   coupledValue nComp mesh theta w' p i = coupledValue nComp mesh theta w p i"
  by (simp add: coupledValue_def coupledCmptP_def coupledCmptN_def Let_def)

lemma patchResult_cong:
  "scheme w' = scheme w \<Longrightarrow> vf w' = vf w \<Longrightarrow> tsfN w' = tsfN w \<Longrightarrow>
   sBoundary (tsfP w') ! q = sBoundary (tsfP w) ! q \<Longrightarrow>
   patchResult nComp mesh theta w' q = patchResult nComp mesh theta w q"
  by (simp add: patchResult_def coupledValue_def coupledCmptP_def coupledCmptN_def Let_def)

lemma internalLoop_closed:
  assumes len: "length (owner mesh) = length (sInternal (tsfP w))"
    and cm: "\<forall>v \<in> set (sInternal (tsfP w)). length v = nComp"
  shows "fold (limitInternal nComp mesh theta) [0..<length (owner mesh)] w
           = putInternal (map (internalValue nComp mesh theta w) [0..<length (owner mesh)]) w"
proof -
  have "fold (limitInternal nComp mesh theta) [0..<length (owner mesh)] w
          = putInternal (map (\<lambda>j. if j < length (owner mesh) then internalValue nComp mesh theta w j
                                    else sInternal (tsfP w) ! j)
                             [0..<length (sInternal (tsfP w))]) w"
  proof (rule indexedLoop [where get = "\<lambda>s. sInternal (tsfP s)"])
    fix ys :: "cmpts list" and i
    assume i: "i < length (owner mesh)" and l: "length ys = length (sInternal (tsfP w))"
      and same: "ys ! i = sInternal (tsfP w) ! i"
    have v: "internalValue nComp mesh theta (putInternal ys w) i = internalValue nComp mesh theta w i"
      using same by (intro internalValue_cong) simp_all
    have "length (ys ! i) = nComp"
      using same cm i len by simp
    then have "limitInternal nComp mesh theta i (putInternal ys w)
                 = setInternal i (internalValue nComp mesh theta (putInternal ys w) i) (putInternal ys w)"
      using i l len by (intro limitInternal_eq) simp_all
    then show "limitInternal nComp mesh theta i (putInternal ys w)
                 = putInternal (ys[i := internalValue nComp mesh theta w i]) w"
      by (simp add: v setInternal_put)
  qed (simp_all add: len)
  then show ?thesis using len by (simp only: map_if_upt)
qed

lemma patchFaceLoop_closed:
  assumes p: "p < length (sBoundary (tsfP w))"
    and n: "n = length (patchValues (sBoundary (tsfP w) ! p))"
    and cm: "\<forall>v \<in> set (patchValues (sBoundary (tsfP w) ! p)). length v = nComp"
  shows "fold (limitCoupled nComp mesh theta p) [0..<n] w
           = putPatch p (map (coupledValue nComp mesh theta w p) [0..<n]) w"
proof -
  let ?old = "patchValues (sBoundary (tsfP w) ! p)"
  have "fold (limitCoupled nComp mesh theta p) [0..<n] w
          = putPatch p (map (\<lambda>j. if j < n then coupledValue nComp mesh theta w p j else ?old ! j)
                            [0..<length ?old]) w"
  proof (rule indexedLoop [where get = "\<lambda>s. patchValues (sBoundary (tsfP s) ! p)"])
    fix ys :: "cmpts list" and i
    assume i: "i < n" and l: "length ys = length ?old" and same: "ys ! i = ?old ! i"
    have v: "coupledValue nComp mesh theta (putPatch p ys w) p i = coupledValue nComp mesh theta w p i"
      using same p by (intro coupledValue_cong) simp_all
    have "length (ys ! i) = nComp"
      using same cm i n by simp
    then have "limitCoupled nComp mesh theta p i (putPatch p ys w)
                 = setBoundary p i (coupledValue nComp mesh theta (putPatch p ys w) p i) (putPatch p ys w)"
      using i l n p by (intro limitCoupled_eq) (simp_all add: putPatch_def)
    then show "limitCoupled nComp mesh theta p i (putPatch p ys w)
                 = putPatch p (ys[i := coupledValue nComp mesh theta w p i]) w"
      using p by (simp add: v setBoundary_put)
  qed (simp_all add: n)
  then show ?thesis using n by (simp only: map_if_upt)
qed

lemma limitPatch_closed:
  assumes q: "q < length (sBoundary (tsfP w))"
    and n: "coupled (sBoundary (tsfP w) ! q) \<Longrightarrow>
              length (faceCells (boundary mesh ! q)) = length (patchValues (sBoundary (tsfP w) ! q))"
    and cm: "\<forall>v \<in> set (patchValues (sBoundary (tsfP w) ! q)). length v = nComp"
  shows "limitPatch nComp mesh theta q w
           = putBoundary ((sBoundary (tsfP w))[q := patchResult nComp mesh theta w q]) w"
proof (cases "coupled (sBoundary (tsfP w) ! q)")
  case True
  show ?thesis
    using True patchFaceLoop_closed [OF q n [OF True] cm, of mesh theta]
    by (simp add: limitPatch_def patchResult_def putPatch_def)
next
  case False
  then show ?thesis
    by (simp add: limitPatch_def patchResult_def)
qed

lemma patchLoop_closed:
  assumes n: "\<And>q. q < length (sBoundary (tsfP w)) \<Longrightarrow> coupled (sBoundary (tsfP w) ! q) \<Longrightarrow>
              length (faceCells (boundary mesh ! q)) = length (patchValues (sBoundary (tsfP w) ! q))"
    and cm: "\<forall>pf \<in> set (sBoundary (tsfP w)). \<forall>v \<in> set (patchValues pf). length v = nComp"
  shows "fold (limitPatch nComp mesh theta) [0..<length (sBoundary (tsfP w))] w
           = putBoundary (map (patchResult nComp mesh theta w) [0..<length (sBoundary (tsfP w))]) w"
proof -
  let ?m = "length (sBoundary (tsfP w))"
  have "fold (limitPatch nComp mesh theta) [0..<?m] w
          = putBoundary (map (\<lambda>j. if j < ?m then patchResult nComp mesh theta w j
                                    else sBoundary (tsfP w) ! j) [0..<?m]) w"
  proof (rule indexedLoop [where get = "\<lambda>s. sBoundary (tsfP s)"])
    fix ys :: "cmpts fvsPatchField list" and i
    assume i: "i < ?m" and len: "length ys = ?m" and same: "ys ! i = sBoundary (tsfP w) ! i"
    have r: "patchResult nComp mesh theta (putBoundary ys w) i = patchResult nComp mesh theta w i"
      using same by (intro patchResult_cong) simp_all
    have c: "\<forall>v \<in> set (patchValues (ys ! i)). length v = nComp"
      using cm i same by (metis nth_mem)
    have "limitPatch nComp mesh theta i (putBoundary ys w)
            = putBoundary ((sBoundary (tsfP (putBoundary ys w)))
                [i := patchResult nComp mesh theta (putBoundary ys w) i]) (putBoundary ys w)"
      using i len same n [OF i] c by (intro limitPatch_closed) simp_all
    then show "limitPatch nComp mesh theta i (putBoundary ys w)
                 = putBoundary (ys[i := patchResult nComp mesh theta w i]) w"
      by (simp add: r)
  qed simp_all
  then show ?thesis by (simp only: map_if_upt)
qed

lemma calcLimiter_closed:
  assumes wf: "wellFormed mesh w"
    and cm: "wfCmpts (length (internalField (vf w) ! 0)) mesh w"
  shows "calcLimiter mesh w = w\<lparr> tsfP := limited mesh w \<rparr>"
proof -
  let ?n = "length (internalField (vf w) ! 0)"
  let ?th = "calcTheta ?n mesh w"
  let ?w1 = "putInternal (map (internalValue ?n mesh ?th w) [0..<length (owner mesh)]) w"
  note sz = wellFormed_sizes [OF wf]
  have w1: "fold (limitInternal ?n mesh ?th) [0..<length (owner mesh)] w = ?w1"
    using sz(1) cm by (intro internalLoop_closed) (simp_all add: wfCmpts_def)
  have "fold (limitPatch ?n mesh ?th) [0..<length (sBoundary (tsfP ?w1))] ?w1
          = putBoundary (map (patchResult ?n mesh ?th ?w1) [0..<length (sBoundary (tsfP ?w1))]) ?w1"
    using cm by (intro patchLoop_closed) (simp_all add: sz wfCmpts_def)
  also have "map (patchResult ?n mesh ?th ?w1) [0..<length (sBoundary (tsfP ?w1))]
               = map (patchResult ?n mesh ?th w) [0..<length (sBoundary (tsfP w))]"
  proof (rule map_cong)
    fix q
    show "patchResult ?n mesh ?th ?w1 q = patchResult ?n mesh ?th w q"
      by (rule patchResult_cong) simp_all
  qed simp
  finally show ?thesis
    by (simp add: calcLimiter_def Let_def w1 limited_def putBoundary_def putInternal_def)
qed

subsection \<open>The limiter coefficients of the scalar specialisation\<close>

lemma fold_update_upt:
  "fold (\<lambda>i xs. xs[i := g i]) [0..<n] xs
     = map (\<lambda>j. if j < n then g j else xs ! j) [0..<length xs]"
proof (induction n)
  case 0
  show ?case by (simp add: map_nth)
next
  case (Suc n)
  have "fold (\<lambda>i xs. xs[i := g i]) [0..<Suc n] xs
          = (map (\<lambda>j. if j < n then g j else xs ! j) [0..<length xs])[n := g n]"
    using Suc.IH by simp
  also have "\<dots> = map (\<lambda>j. if j < Suc n then g j else xs ! j) [0..<length xs]"
    by (rule nth_equalityI) (auto simp: nth_list_update less_Suc_eq)
  finally show ?case .
qed

lemma calcThetaScalar_length: "length (calcThetaScalar mesh w) = nCells mesh"
  by (simp add: calcThetaScalar_def Let_def fold_update_upt)

lemma calcThetaScalar_nth:
  "c < nCells mesh \<Longrightarrow>
   calcThetaScalar mesh w ! c
     = cellThetaScalar mesh (internalField (vf w)) (sInternal (tsfP w)) (sInternal (tsfN w))
         (fieldMax (internalField (vf w))) (fieldMin (internalField (vf w))) c"
  by (simp add: calcThetaScalar_def Let_def fold_update_upt)

lemma cellThetaScalar_range:
  "0 \<le> cellThetaScalar mesh vfI sfP sfN maxPhi minPhi c \<and>
   cellThetaScalar mesh vfI sfP sfN maxPhi minPhi c \<le> 1"
  by (simp add: cellThetaScalar_def Let_def mag_def min_def)

subsection \<open>What the loops leave alone\<close>

lemma fold_preserves:
  assumes "\<And>i s. f (step i s) = f s"
  shows "f (fold step xs s) = f s"
  using assms by (induction xs arbitrary: s) simp_all

lemma untouched_set [simp]:
  "untouched (setInternal i v w) = untouched w"
  "untouched (setBoundary p i v w) = untouched w"
  by (simp_all add: untouched_def)

lemma untouched_limitInternalScalar: "untouched (limitInternalScalar mesh theta i w) = untouched w"
  by (simp add: limitInternalScalar_eq)

lemma untouched_limitPatchScalar: "untouched (limitPatchScalar mesh theta q w) = untouched w"
  by (simp add: limitPatchScalar_def limitCoupledScalar_eq fold_preserves [where f = untouched])

lemma untouched_calcLimiterScalar: "untouched (calcLimiterScalar mesh w) = untouched w"
  by (simp add: calcLimiterScalar_def Let_def fold_preserves [where f = untouched]
        untouched_limitInternalScalar untouched_limitPatchScalar)

lemma untouched_limitInternal: "untouched (limitInternal nComp mesh theta i w) = untouched w"
  by (simp add: limitInternal_def Let_def limitInternalCmptP_def limitInternalCmptN_def
        setInternalCmpt_def fold_preserves [where f = untouched])

lemma untouched_limitCoupled: "untouched (limitCoupled nComp mesh theta p i w) = untouched w"
  by (simp add: limitCoupled_def Let_def limitCoupledCmptP_def limitCoupledCmptN_def
        setBoundaryCmpt_def fold_preserves [where f = untouched])

lemma untouched_limitPatch: "untouched (limitPatch nComp mesh theta q w) = untouched w"
  by (simp add: limitPatch_def untouched_limitCoupled fold_preserves [where f = untouched])

lemma untouched_calcLimiter: "untouched (calcLimiter mesh w) = untouched w"
  by (simp add: calcLimiter_def Let_def fold_preserves [where f = untouched]
        untouched_limitInternal untouched_limitPatch)

subsection \<open>The value of each face after calcLimiter\<close>

lemma scalar_internal_face:
  assumes "wellFormed mesh w" and "f < nInternalFaces mesh"
  shows "sInternal (tsfP (calcLimiterScalar mesh w)) ! f
           = internalValueScalar mesh (calcThetaScalar mesh w) w f"
proof -
  from assms have "f < length (owner mesh)"
    by (simp add: wellFormed_def wfMesh_def)
  then show ?thesis
    by (simp add: calcLimiterScalar_closed [OF assms(1)] limitedScalar_def Let_def)
qed

lemma scalar_patch:
  assumes "wellFormed mesh w" and "q < length (boundary mesh)"
  shows "sBoundary (tsfP (calcLimiterScalar mesh w)) ! q
           = patchResultScalar mesh (calcThetaScalar mesh w) w q"
  using assms wellFormed_sizes(2) [OF assms(1)]
  by (simp add: calcLimiterScalar_closed [OF assms(1)] limitedScalar_def Let_def)

lemma scalar_coupled_face:
  assumes "wellFormed mesh w" and "q < length (boundary mesh)"
    and "coupled (sBoundary (tsfP w) ! q)" and "j < length (faceCells (boundary mesh ! q))"
  shows "patchValues (sBoundary (tsfP (calcLimiterScalar mesh w)) ! q) ! j
           = coupledValueScalar mesh (calcThetaScalar mesh w) w q j"
  using assms by (simp add: scalar_patch patchResultScalar_def)

lemma scalar_other_patch:
  assumes "wellFormed mesh w" and "q < length (boundary mesh)"
    and "\<not> coupled (sBoundary (tsfP w) ! q)"
  shows "sBoundary (tsfP (calcLimiterScalar mesh w)) ! q = sBoundary (tsfP w) ! q"
  using assms by (simp add: scalar_patch patchResultScalar_def)

lemma wfCmpts_nComp:
  assumes "wellFormed mesh w" and "wfCmpts nComp mesh w"
  shows "length (internalField (vf w) ! 0) = nComp"
proof -
  from assms have "0 < length (internalField (vf w))"
    by (simp add: wellFormed_def wfCmpts_def)
  then have "internalField (vf w) ! 0 \<in> set (internalField (vf w))"
    by (rule nth_mem)
  with assms(2) show ?thesis by (simp add: wfCmpts_def)
qed

lemma cmpts_internal_face:
  assumes "wellFormed mesh w" and "wfCmpts nComp mesh w" and "f < nInternalFaces mesh"
  shows "sInternal (tsfP (calcLimiter mesh w)) ! f
           = internalValue nComp mesh (calcTheta nComp mesh w) w f"
proof -
  note n = wfCmpts_nComp [OF assms(1,2)]
  from assms have "f < length (owner mesh)"
    by (simp add: wellFormed_def wfMesh_def)
  moreover have "calcLimiter mesh w = w\<lparr> tsfP := limited mesh w \<rparr>"
    using assms(1,2) n by (intro calcLimiter_closed) simp_all
  ultimately show ?thesis
    by (simp add: limited_def Let_def n)
qed

lemma cmpts_patch:
  assumes "wellFormed mesh w" and "wfCmpts nComp mesh w" and "q < length (boundary mesh)"
  shows "sBoundary (tsfP (calcLimiter mesh w)) ! q
           = patchResult nComp mesh (calcTheta nComp mesh w) w q"
proof -
  note n = wfCmpts_nComp [OF assms(1,2)]
  have "calcLimiter mesh w = w\<lparr> tsfP := limited mesh w \<rparr>"
    using assms(1,2) n by (intro calcLimiter_closed) simp_all
  then show ?thesis
    using assms(3) wellFormed_sizes(2) [OF assms(1)]
    by (simp add: limited_def Let_def n)
qed

lemma cmpts_coupled_face:
  assumes "wellFormed mesh w" and "wfCmpts nComp mesh w" and "q < length (boundary mesh)"
    and "coupled (sBoundary (tsfP w) ! q)" and "j < length (faceCells (boundary mesh ! q))"
  shows "patchValues (sBoundary (tsfP (calcLimiter mesh w)) ! q) ! j
           = coupledValue nComp mesh (calcTheta nComp mesh w) w q j"
  using assms by (simp add: cmpts_patch patchResult_def)


subsection \<open>Sizes and ranges of well-formed inputs\<close>

lemma onMesh_sizes:
  assumes o: "onMesh mesh sf"
  shows "length (sInternal sf) = nInternalFaces mesh"
    and "length (sBoundary sf) = length (boundary mesh)"
    and "q < length (boundary mesh) \<Longrightarrow>
           length (patchValues (sBoundary sf ! q)) = length (faceCells (boundary mesh ! q))"
proof -
  from o show "length (sInternal sf) = nInternalFaces mesh"
    by (simp add: onMesh_def)
  from o have eq: "map (\<lambda>pf. length (patchValues pf)) (sBoundary sf)
                     = map (\<lambda>p. length (faceCells p)) (boundary mesh)"
    by (simp add: onMesh_def)
  from eq show len: "length (sBoundary sf) = length (boundary mesh)"
    by (rule map_eq_imp_length_eq)
  assume q: "q < length (boundary mesh)"
  have "map (\<lambda>pf. length (patchValues pf)) (sBoundary sf) ! q
          = map (\<lambda>p. length (faceCells p)) (boundary mesh) ! q"
    by (simp only: eq)
  then show "length (patchValues (sBoundary sf ! q)) = length (faceCells (boundary mesh ! q))"
    using q len by simp
qed

lemma wfMesh_ranges:
  assumes m: "wfMesh mesh"
  shows "f < nInternalFaces mesh \<Longrightarrow> owner mesh ! f < nCells mesh"
    and "f < nInternalFaces mesh \<Longrightarrow> neighbour mesh ! f < nCells mesh"
    and "q < length (boundary mesh) \<Longrightarrow> j < length (faceCells (boundary mesh ! q)) \<Longrightarrow>
           faceCells (boundary mesh ! q) ! j < nCells mesh"
proof -
  show "owner mesh ! f < nCells mesh" if "f < nInternalFaces mesh"
    using m that nth_mem [of f "owner mesh"] by (simp add: wfMesh_def)
  show "neighbour mesh ! f < nCells mesh" if "f < nInternalFaces mesh"
    using m that nth_mem [of f "neighbour mesh"] by (simp add: wfMesh_def)
  show "faceCells (boundary mesh ! q) ! j < nCells mesh"
    if "q < length (boundary mesh)" "j < length (faceCells (boundary mesh ! q))"
  proof -
    from that have "boundary mesh ! q \<in> set (boundary mesh)"
      and "faceCells (boundary mesh ! q) ! j \<in> set (faceCells (boundary mesh ! q))"
      by simp_all
    with m show ?thesis unfolding wfMesh_def by blast
  qed
qed

lemma wellFormed_parts:
  assumes "wellFormed mesh w"
  shows "wfMesh mesh" and "onMesh mesh (tsfP w)" and "onMesh mesh (tsfN w)"
    and "onMesh mesh (faceFlux (scheme w))"
    and "length (internalField (vf w)) = nCells mesh"
    and "length (vBoundary (vf w)) = length (boundary mesh)"
    and "q < length (boundary mesh) \<Longrightarrow> coupled (sBoundary (tsfP w) ! q) \<Longrightarrow>
           length (patchNeighbourField (vBoundary (vf w) ! q))
             = length (faceCells (boundary mesh ! q))"
  using assms by (simp_all add: wellFormed_def)

subsection \<open>The coefficients of the template stay between 0 and 1\<close>

lemma fold_invariant:
  assumes "\<And>i s. P s \<Longrightarrow> P (step i s)" and "P s"
  shows "P (fold step xs s)"
  using assms by (induction xs arbitrary: s) simp_all

lemma thetaInRange_update:
  assumes "thetaInRange n nComp theta" and "0 \<le> v" and "v \<le> 1"
  shows "thetaInRange n nComp (theta[cellI := (theta ! cellI)[cI := v]])"
proof -
  let ?th = "theta[cellI := (theta ! cellI)[cI := v]]"
  from assms(1) have len: "length theta = n"
    and row: "\<And>c. c < n \<Longrightarrow> length (theta ! c) = nComp"
    and val: "\<And>c k. c < n \<Longrightarrow> k < nComp \<Longrightarrow> 0 \<le> theta ! c ! k \<and> theta ! c ! k \<le> 1"
    by (simp_all add: thetaInRange_def)
  have "length (?th ! c) = nComp \<and> (\<forall>k < nComp. 0 \<le> ?th ! c ! k \<and> ?th ! c ! k \<le> 1)"
    if c: "c < n" for c
  proof (cases "c = cellI")
    case True
    then have "?th ! c = (theta ! cellI)[cI := v]"
      using c len by simp
    then show ?thesis
      using row [OF c] val [OF c] assms(2,3) True
      by (cases "cI < length (theta ! cellI)") (auto simp: nth_list_update list_update_beyond)
  next
    case False
    then have "?th ! c = theta ! c" by simp
    then show ?thesis using row [OF c] val [OF c] by simp
  qed
  then show ?thesis using len by (simp add: thetaInRange_def)
qed

lemma thetaInRange_cellThetaCmpt:
  assumes "thetaInRange n nComp (snd st)"
  shows "thetaInRange n nComp (snd (cellThetaCmpt mesh vfI sfP sfN maxPhi minPhi cellI cI st))"
proof -
  let ?mm = "fold (scanFace mesh sfP sfN cellI cI) (cells mesh ! cellI) (fst st)"
  let ?A = "if mag (fst ?mm ! cI - vfI ! cellI ! cI) < 1 / 10 ^ 10 then 1
            else mag ((maxPhi ! cI - vfI ! cellI ! cI) / (fst ?mm ! cI - vfI ! cellI ! cI))"
  let ?B = "if mag (snd ?mm ! cI - vfI ! cellI ! cI) < 1 / 10 ^ 10 then 1
            else mag ((minPhi ! cI - vfI ! cellI ! cI) / (snd ?mm ! cI - vfI ! cellI ! cI))"
  have eq: "snd (cellThetaCmpt mesh vfI sfP sfN maxPhi minPhi cellI cI st)
              = (snd st)[cellI := (snd st ! cellI)[cI := min (min ?A ?B) 1]]"
    by (simp add: cellThetaCmpt_def Let_def)
  have "0 \<le> ?A" "0 \<le> ?B"
    by (simp_all add: mag_def)
  then have "0 \<le> min (min ?A ?B) 1" "min (min ?A ?B) 1 \<le> 1"
    by simp_all
  with assms show ?thesis
    unfolding eq by (intro thetaInRange_update)
qed

lemma thetaInRange_cellTheta:
  assumes "thetaInRange n nComp theta"
  shows "thetaInRange n nComp (cellTheta nComp' mesh vfI sfP sfN maxPhi minPhi cellI theta)"
  unfolding cellTheta_def
  by (rule fold_invariant [where P = "\<lambda>st. thetaInRange n nComp (snd st)"])
     (simp_all add: thetaInRange_cellThetaCmpt assms)

lemma thetaInRange_calcTheta: "thetaInRange (nCells mesh) nComp (calcTheta nComp mesh w)"
  unfolding calcTheta_def Let_def
  by (rule fold_invariant [where P = "thetaInRange (nCells mesh) nComp"])
     (simp_all add: thetaInRange_cellTheta, simp add: thetaInRange_def)

subsection \<open>The scan of a cell encloses the provisional values of its faces\<close>







subsection \<open>The limited value stays within the range of the field\<close>





subsection \<open>A scalar state as a state of the template\<close>

lemma wrapState_simps [simp]:
  "scheme (wrapState w) = scheme w"
  "wenoBase (wrapState w) = wenoBase w"
  "tsfP (wrapState w) = wrapField (tsfP w)"
  "tsfN (wrapState w) = wrapField (tsfN w)"
  "internalField (vf (wrapState w)) = map wrap (internalField (vf w))"
  "vBoundary (vf (wrapState w))
     = map (\<lambda>vp. \<lparr> patchNeighbourField = map wrap (patchNeighbourField vp) \<rparr>) (vBoundary (vf w))"
  by (simp_all add: wrapState_def)

lemma wrapField_simps [simp]:
  "sInternal (wrapField sf) = map wrap (sInternal sf)"
  "sBoundary (wrapField sf)
     = map (\<lambda>pf. \<lparr> coupled = coupled pf, patchValues = map wrap (patchValues pf) \<rparr>) (sBoundary sf)"
  by (simp_all add: wrapField_def)

lemma wellFormed_wrap:
  assumes "wellFormed mesh w"
  shows "wellFormed mesh (wrapState w)"
proof -
  note p = wellFormed_parts [OF assms]
  have "onMesh mesh (wrapField (tsfP w))" "onMesh mesh (wrapField (tsfN w))"
    using p(2,3) by (simp_all add: onMesh_def comp_def)
  moreover have "\<forall>i \<in> set [0..<length (boundary mesh)].
        coupled (sBoundary (wrapField (tsfP w)) ! i) \<longrightarrow>
          length (patchNeighbourField (vBoundary (vf (wrapState w)) ! i))
            = length (faceCells (boundary mesh ! i))"
    using p(6,7) onMesh_sizes(2) [OF p(2)] by simp
  ultimately show ?thesis
    using p(1,4,5,6) by (simp add: wellFormed_def)
qed

lemma wfCmpts_wrap:
  assumes "0 < nCells mesh"
  shows "wfCmpts 1 mesh (wrapState w)"
  using assms by (auto simp: wfCmpts_def wrap_def)

subsection \<open>The limiter coefficients of the template with one component\<close>

lemma fold_max_wrap:
  "fold (\<lambda>y m. map2 max y m) (map wrap xs) [m] = [fold max xs m]"
  by (induction xs arbitrary: m) (simp_all add: wrap_def)

lemma fold_min_wrap:
  "fold (\<lambda>y m. map2 min y m) (map wrap xs) [m] = [fold min xs m]"
  by (induction xs arbitrary: m) (simp_all add: wrap_def)

lemma fieldMaxCmpts_wrap: "xs \<noteq> [] \<Longrightarrow> fieldMaxCmpts (Suc 0) (map wrap xs) = [fieldMax xs]"
  using fold_max_wrap [of xs "hd xs"]
  by (cases xs) (simp_all add: fieldMaxCmpts_def fieldMax_def wrap_def)

lemma fieldMinCmpts_wrap: "xs \<noteq> [] \<Longrightarrow> fieldMinCmpts (Suc 0) (map wrap xs) = [fieldMin xs]"
  using fold_min_wrap [of xs "hd xs"]
  by (cases xs) (simp_all add: fieldMinCmpts_def fieldMin_def wrap_def)

lemma scanFace_wrap:
  assumes "length sfP = nInternalFaces mesh" and "length sfN = nInternalFaces mesh"
  shows "scanFace mesh (map wrap sfP) (map wrap sfN) cellI 0 f ([a], [b])
           = ([fst (scanFaceScalar mesh sfP sfN cellI f (a, b))],
              [snd (scanFaceScalar mesh sfP sfN cellI f (a, b))])"
  using assms by (simp add: scanFace_def scanFaceScalar_def Let_def wrap_def)

lemma scanFace_fold_wrap:
  assumes "length sfP = nInternalFaces mesh" and "length sfN = nInternalFaces mesh"
  shows "fold (scanFace mesh (map wrap sfP) (map wrap sfN) cellI 0) faces ([a], [b])
           = ([fst (fold (scanFaceScalar mesh sfP sfN cellI) faces (a, b))],
              [snd (fold (scanFaceScalar mesh sfP sfN cellI) faces (a, b))])"
proof (induction faces arbitrary: a b)
  case Nil
  show ?case by simp
next
  case (Cons f faces)
  show ?case
    using Cons.IH [of "fst (scanFaceScalar mesh sfP sfN cellI f (a, b))"
                      "snd (scanFaceScalar mesh sfP sfN cellI f (a, b))"]
    by (simp add: scanFace_wrap [OF assms])
qed

lemma cellTheta_wrap:
  assumes "length sfP = nInternalFaces mesh" and "length sfN = nInternalFaces mesh"
    and c: "cellI < length vfI"
  shows "cellTheta (Suc 0) mesh (map wrap vfI) (map wrap sfP) (map wrap sfN) [maxPhi] [minPhi] cellI
           (map wrap theta)
         = map wrap (theta[cellI := cellThetaScalar mesh vfI sfP sfN maxPhi minPhi cellI])"
proof -
  have v: "map wrap vfI ! cellI = [vfI ! cellI]"
    using c by (simp add: wrap_def)
  have u: "(map wrap theta)[cellI := (map wrap theta ! cellI)[0 := x]]
             = map wrap (theta[cellI := x])" for x
  proof (cases "cellI < length theta")
    case True
    then show ?thesis by (simp add: map_update wrap_def)
  next
    case False
    then show ?thesis by (simp add: list_update_beyond)
  qed
  show ?thesis
    by (simp add: cellTheta_def cellThetaCmpt_def cellThetaScalar_def Let_def v
          scanFace_fold_wrap [OF assms(1,2)] u)
qed

lemma calcTheta_fold_wrap:
  assumes "length sfP = nInternalFaces mesh" and "length sfN = nInternalFaces mesh"
    and "n \<le> length vfI"
  shows "fold (cellTheta (Suc 0) mesh (map wrap vfI) (map wrap sfP) (map wrap sfN) [maxPhi] [minPhi])
              [0..<n] (map wrap theta)
         = map wrap (fold (\<lambda>cellI theta.
                             theta[cellI := cellThetaScalar mesh vfI sfP sfN maxPhi minPhi cellI])
                          [0..<n] theta)"
  using assms(3)
proof (induction n)
  case 0
  show ?case by simp
next
  case (Suc n)
  then show ?case
    by (simp add: cellTheta_wrap [OF assms(1,2)])
qed

lemma calcTheta_wrap:
  assumes wf: "wellFormed mesh w" and n: "0 < nCells mesh"
  shows "calcTheta (Suc 0) mesh (wrapState w) = map wrap (calcThetaScalar mesh w)"
proof -
  note p = wellFormed_parts [OF wf]
  have ne: "internalField (vf w) \<noteq> []"
    using p(5) n by auto
  let ?vfI = "internalField (vf w)"
  have "calcTheta (Suc 0) mesh (wrapState w)
          = fold (cellTheta (Suc 0) mesh (map wrap ?vfI) (map wrap (sInternal (tsfP w)))
                    (map wrap (sInternal (tsfN w))) [fieldMax ?vfI] [fieldMin ?vfI])
                 [0..<nCells mesh] (map wrap (replicate (nCells mesh) 0))"
    by (simp add: calcTheta_def Let_def fieldMaxCmpts_wrap [OF ne] fieldMinCmpts_wrap [OF ne]
          wrap_def)
  also have "\<dots> = map wrap (fold (\<lambda>cellI theta.
                        theta[cellI := cellThetaScalar mesh ?vfI (sInternal (tsfP w))
                                         (sInternal (tsfN w)) (fieldMax ?vfI) (fieldMin ?vfI) cellI])
                      [0..<nCells mesh] (replicate (nCells mesh) 0))"
    using onMesh_sizes(1) [OF p(2)] onMesh_sizes(1) [OF p(3)] p(5)
    by (intro calcTheta_fold_wrap) simp_all
  also have "\<dots> = map wrap (calcThetaScalar mesh w)"
    by (simp add: calcThetaScalar_def Let_def)
  finally show ?thesis .
qed

subsection \<open>The faces of the template with one component\<close>

lemma internalValue_wrap:
  assumes wf: "wellFormed mesh w" and f: "f < nInternalFaces mesh"
    and th: "length theta = nCells mesh"
  shows "internalValue (Suc 0) mesh (map wrap theta) (wrapState w) f
           = wrap (internalValueScalar mesh theta w f)"
proof -
  note p = wellFormed_parts [OF wf]
  have r: "owner mesh ! f < length theta" "neighbour mesh ! f < length theta"
    "owner mesh ! f < length (internalField (vf w))"
    "neighbour mesh ! f < length (internalField (vf w))"
    "f < length (sInternal (tsfP w))" "f < length (sInternal (tsfN w))"
    using wfMesh_ranges(1,2) [OF p(1) f] th p(5) f onMesh_sizes(1) [OF p(2)]
      onMesh_sizes(1) [OF p(3)] by simp_all
  show ?thesis
    using r
    by (simp add: internalValue_def internalValueScalar_def internalCmptP_def internalCmptN_def
          Let_def wrap_def)
qed

lemma coupledValue_wrap:
  assumes wf: "wellFormed mesh w" and q: "q < length (boundary mesh)"
    and j: "j < length (faceCells (boundary mesh ! q))"
    and cp: "coupled (sBoundary (tsfP w) ! q)"
    and th: "length theta = nCells mesh"
  shows "coupledValue (Suc 0) mesh (map wrap theta) (wrapState w) q j
           = wrap (coupledValueScalar mesh theta w q j)"
proof -
  note p = wellFormed_parts [OF wf]
  have r: "faceCells (boundary mesh ! q) ! j < length theta"
    "faceCells (boundary mesh ! q) ! j < length (internalField (vf w))"
    "q < length (sBoundary (tsfP w))" "q < length (sBoundary (tsfN w))"
    "q < length (vBoundary (vf w))"
    "j < length (patchValues (sBoundary (tsfP w) ! q))"
    "j < length (patchValues (sBoundary (tsfN w) ! q))"
    "j < length (patchNeighbourField (vBoundary (vf w) ! q))"
    using wfMesh_ranges(3) [OF p(1) q j] th p(5) p(6) q j onMesh_sizes(2,3) [OF p(2)]
      onMesh_sizes(2,3) [OF p(3)] p(7) [OF q cp] by simp_all
  show ?thesis
    using r
    by (simp add: coupledValue_def coupledValueScalar_def coupledCmptP_def coupledCmptN_def
          Let_def wrap_def)
qed

lemma patchResult_wrap:
  assumes wf: "wellFormed mesh w" and q: "q < length (boundary mesh)"
    and th: "length theta = nCells mesh"
  shows "patchResult (Suc 0) mesh (map wrap theta) (wrapState w) q
           = \<lparr> coupled = coupled (patchResultScalar mesh theta w q),
               patchValues = map wrap (patchValues (patchResultScalar mesh theta w q)) \<rparr>"
proof -
  note p = wellFormed_parts [OF wf]
  have qq: "q < length (sBoundary (tsfP w))"
    using q onMesh_sizes(2) [OF p(2)] by simp
  show ?thesis
  proof (cases "coupled (sBoundary (tsfP w) ! q)")
    case True
    have "map (coupledValue (Suc 0) mesh (map wrap theta) (wrapState w) q)
              [0..<length (faceCells (boundary mesh ! q))]
            = map (\<lambda>j. wrap (coupledValueScalar mesh theta w q j))
                  [0..<length (faceCells (boundary mesh ! q))]"
      by (rule map_cong) (simp_all add: coupledValue_wrap [OF wf q _ True th])
    then show ?thesis
      using True qq by (simp add: patchResult_def patchResultScalar_def Let_def comp_def)
  next
    case False
    then show ?thesis
      using qq by (simp add: patchResult_def patchResultScalar_def Let_def)
  qed
qed

lemma limited_wrap:
  assumes wf: "wellFormed mesh w" and n: "0 < nCells mesh"
  shows "limited mesh (wrapState w) = wrapField (limitedScalar mesh w)"
proof -
  note p = wellFormed_parts [OF wf]
  let ?th = "calcThetaScalar mesh w"
  have th: "length ?th = nCells mesh" by (rule calcThetaScalar_length)
  have nc: "length (internalField (vf (wrapState w)) ! 0) = Suc 0"
    using n p(5) by (simp add: wrap_def)
  have i: "map (internalValue (Suc 0) mesh (map wrap ?th) (wrapState w)) [0..<length (owner mesh)]
             = map (\<lambda>f. wrap (internalValueScalar mesh ?th w f)) [0..<length (owner mesh)]"
    using p(1) by (intro map_cong) (simp_all add: internalValue_wrap [OF wf _ th] wfMesh_def)
  have b: "map (patchResult (Suc 0) mesh (map wrap ?th) (wrapState w)) [0..<length (sBoundary (tsfP w))]
             = map (\<lambda>q. \<lparr> coupled = coupled (patchResultScalar mesh ?th w q),
                           patchValues = map wrap (patchValues (patchResultScalar mesh ?th w q)) \<rparr>)
                   [0..<length (sBoundary (tsfP w))]"
    using onMesh_sizes(2) [OF p(2)]
    by (intro map_cong) (simp_all add: patchResult_wrap [OF wf _ th])
  show ?thesis
    unfolding limited_def limitedScalar_def Let_def nc calcTheta_wrap [OF wf n]
    by (simp add: i b wrapField_def comp_def)
qed

section \<open>The claims\<close>

subsection \<open>The store behind WENOBase::instance\<close>

text \<open>
  C2, as stated: the store is keyed by mesh and polynomial order, so a lookup with a
  different key returns the store built for that key. The code keeps one static object:
  with the store standing for the arguments it was built from, a second call with the key
  (mesh 1, order 3) after a first call with (mesh 0, order 2) does not return the store of
  (mesh 1, order 3).
\<close>

theorem instance_keyed_counterexample:
  "fst (WENOBase_instance Pair (1::nat) 3 (snd (WENOBase_instance Pair (0::nat) 2 None)))
     \<noteq> Pair 1 3"
  by (simp add: WENOBase_instance_def Let_def)

text \<open>
  C2, amended: the first call constructs the store from its mesh and polynomial order and
  keeps it; every later call, whatever mesh and polynomial order it is given, returns the
  store the first call built and leaves it in place.
\<close>

theorem instance_singleton:
  "WENOBase_instance ctor mesh order None = (ctor mesh order, Some (ctor mesh order)) \<and>
   WENOBase_instance ctor mesh' order' (snd (WENOBase_instance ctor mesh order None))
     = (ctor mesh order, Some (ctor mesh order)) \<and>
   WENOBase_instance ctor mesh' order' (Some s) = (s, Some s)"
  by (simp add: WENOBase_instance_def Let_def)

subsection \<open>The implicit weights\<close>



subsection \<open>What calcLimiter leaves unchanged\<close>

text \<open>
  C7: calcLimiter, the template and the scalar specialisation alike, writes to the
  owner-side face field \<open>tsfP\<close> only: the scheme with its face flux, the cell field
  \<open>vf\<close>, the neighbour-side face field \<open>tsfN\<close> and the stencil store with all its tables
  are the same after the call as before it.
\<close>

theorem calcLimiter_frame:
  "scheme (calcLimiter mesh w) = scheme w \<and>
   faceFlux (scheme (calcLimiter mesh w)) = faceFlux (scheme w) \<and>
   vf (calcLimiter mesh w) = vf w \<and>
   tsfN (calcLimiter mesh w) = tsfN w \<and>
   wenoBase (calcLimiter mesh w) = wenoBase w \<and>
   scheme (calcLimiterScalar mesh ws) = scheme ws \<and>
   faceFlux (scheme (calcLimiterScalar mesh ws)) = faceFlux (scheme ws) \<and>
   vf (calcLimiterScalar mesh ws) = vf ws \<and>
   tsfN (calcLimiterScalar mesh ws) = tsfN ws \<and>
   wenoBase (calcLimiterScalar mesh ws) = wenoBase ws"
  using untouched_calcLimiter [of mesh w] untouched_calcLimiterScalar [of mesh ws]
  by (simp add: untouched_def)

subsection \<open>Faces without flux\<close>

text \<open>
  C4: on every internal face and every face of a coupled patch whose face flux is exactly
  zero, calcLimiter stores the zero correction, whatever the fields, the limiting factor
  and the polynomial order are; the scalar specialisation stores 0 and the template the
  zero of its type.
\<close>

theorem zero_flux_zero_correction:
  assumes "wellFormed mesh ws" and "wellFormed mesh wv" and "wfCmpts nComp mesh wv"
  shows
    "(\<forall>f < nInternalFaces mesh.
        sInternal (faceFlux (scheme ws)) ! f = 0 \<longrightarrow>
        sInternal (tsfP (calcLimiterScalar mesh ws)) ! f = 0) \<and>
     (\<forall>q < length (boundary mesh). \<forall>j < length (faceCells (boundary mesh ! q)).
        coupled (sBoundary (tsfP ws) ! q) \<longrightarrow>
        patchValues (sBoundary (faceFlux (scheme ws)) ! q) ! j = 0 \<longrightarrow>
        patchValues (sBoundary (tsfP (calcLimiterScalar mesh ws)) ! q) ! j = 0) \<and>
     (\<forall>f < nInternalFaces mesh.
        sInternal (faceFlux (scheme wv)) ! f = 0 \<longrightarrow>
        sInternal (tsfP (calcLimiter mesh wv)) ! f = replicate nComp 0) \<and>
     (\<forall>q < length (boundary mesh). \<forall>j < length (faceCells (boundary mesh ! q)).
        coupled (sBoundary (tsfP wv) ! q) \<longrightarrow>
        patchValues (sBoundary (faceFlux (scheme wv)) ! q) ! j = 0 \<longrightarrow>
        patchValues (sBoundary (tsfP (calcLimiter mesh wv)) ! q) ! j = replicate nComp 0)"
  using assms
  by (simp add: scalar_internal_face scalar_coupled_face cmpts_internal_face cmpts_coupled_face
        internalValueScalar_def coupledValueScalar_def internalValue_def coupledValue_def)

theorem zero_flux_zero_correction_witness:
  "wellFormed mesh3 (w3 (schemeZ 1)) \<and> wellFormed mesh3 (v3 (schemeZ 1)) \<and>
   wfCmpts 2 mesh3 (v3 (schemeZ 1)) \<and>
   sInternal (tsfP (calcLimiterScalar mesh3 (w3 (schemeZ 1)))) ! 0 = 0 \<and>
   patchValues (sBoundary (tsfP (calcLimiterScalar mesh3 (w3 (schemeZ 1)))) ! 1) ! 0 = 0 \<and>
   sInternal (tsfP (calcLimiter mesh3 (v3 (schemeZ 1)))) ! 0 = [0, 0] \<and>
   patchValues (sBoundary (tsfP (calcLimiter mesh3 (v3 (schemeZ 1)))) ! 1) ! 0 = [0, 0]"
proof -
  have ws: "wellFormed mesh3 (w3 (schemeZ 1))" by code_simp
  have wv: "wellFormed mesh3 (v3 (schemeZ 1))" by code_simp
  have cm: "wfCmpts 2 mesh3 (v3 (schemeZ 1))" by code_simp
  have m: "0 < nInternalFaces mesh3" "1 < length (boundary mesh3)"
    "0 < length (faceCells (boundary mesh3 ! 1))"
    by (simp_all add: mesh3_def)
  have z: "sInternal (faceFlux (scheme (w3 (schemeZ 1)))) ! 0 = 0"
    "coupled (sBoundary (tsfP (w3 (schemeZ 1))) ! 1)"
    "patchValues (sBoundary (faceFlux (scheme (w3 (schemeZ 1)))) ! 1) ! 0 = 0"
    "sInternal (faceFlux (scheme (v3 (schemeZ 1)))) ! 0 = 0"
    "coupled (sBoundary (tsfP (v3 (schemeZ 1))) ! 1)"
    "patchValues (sBoundary (faceFlux (scheme (v3 (schemeZ 1)))) ! 1) ! 0 = 0"
    by (simp_all add: w3_def v3_def schemeZ_def zeroFlux_def mesh3_def)
  from zero_flux_zero_correction [OF ws wv cm] m z
  have "sInternal (tsfP (calcLimiterScalar mesh3 (w3 (schemeZ 1)))) ! 0 = 0 \<and>
        patchValues (sBoundary (tsfP (calcLimiterScalar mesh3 (w3 (schemeZ 1)))) ! 1) ! 0 = 0 \<and>
        sInternal (tsfP (calcLimiter mesh3 (v3 (schemeZ 1)))) ! 0 = replicate 2 0 \<and>
        patchValues (sBoundary (tsfP (calcLimiter mesh3 (v3 (schemeZ 1)))) ! 1) ! 0 = replicate 2 0"
    by blast
  with ws wv cm show ?thesis by (simp add: numeral_2_eq_2)
qed

subsection \<open>Constant fields\<close>

text \<open>
  C5, amended: when every cell average, every exchanged neighbour average and every
  provisional face value is the same \<open>c\<close>, and the limiting factor is 0 or 1, the scalar
  calcLimiter stores the correction 0 on every internal face and every face of a coupled
  patch, for every polynomial order. These are the faces calcLimiter computes; it does not
  visit the patches that are not coupled, whose faces keep the value they are given. For
  a limiting factor strictly between 0 and 1 the stored value is
  \<open>limFac * c + (1 - limFac) * c - c\<close> as the machine forms it, which is 0 up to rounding
  only; the statement leaves that case out.
\<close>

theorem constant_preserved:
  assumes wf: "wellFormed mesh w" and u: "uniform c w"
    and lf: "limFac (scheme w) = 0 \<or> limFac (scheme w) = 1"
  shows
    "(\<forall>f < nInternalFaces mesh. sInternal (tsfP (calcLimiterScalar mesh w)) ! f = 0) \<and>
     (\<forall>q < length (boundary mesh). \<forall>j < length (faceCells (boundary mesh ! q)).
        coupled (sBoundary (tsfP w) ! q) \<longrightarrow>
        patchValues (sBoundary (tsfP (calcLimiterScalar mesh w)) ! q) ! j = 0) \<and>
     (\<forall>q < length (boundary mesh).
        \<not> coupled (sBoundary (tsfP w) ! q) \<longrightarrow>
        sBoundary (tsfP (calcLimiterScalar mesh w)) ! q = sBoundary (tsfP w) ! q)"
proof (intro conjI allI impI)
  note p = wellFormed_parts [OF wf]
  fix f assume f: "f < nInternalFaces mesh"
  from u have cell: "\<And>i. i < nCells mesh \<Longrightarrow> internalField (vf w) ! i = c"
    using p(5) by (simp add: uniform_def)
  have "sInternal (tsfP w) ! f = c" "sInternal (tsfN w) ! f = c"
    using u f onMesh_sizes(1) [OF p(2)] onMesh_sizes(1) [OF p(3)] by (simp_all add: uniform_def)
  moreover have "internalField (vf w) ! (owner mesh ! f) = c"
    "internalField (vf w) ! (neighbour mesh ! f) = c"
    using cell wfMesh_ranges(1,2) [OF p(1) f] by simp_all
  ultimately show "sInternal (tsfP (calcLimiterScalar mesh w)) ! f = 0"
    using lf
    by (auto simp add: scalar_internal_face [OF wf f] internalValueScalar_def Let_def)
next
  note p = wellFormed_parts [OF wf]
  fix q j
  assume q: "q < length (boundary mesh)" and j: "j < length (faceCells (boundary mesh ! q))"
    and cp: "coupled (sBoundary (tsfP w) ! q)"
  from u have cell: "\<And>i. i < nCells mesh \<Longrightarrow> internalField (vf w) ! i = c"
    using p(5) by (simp add: uniform_def)
  have own: "internalField (vf w) ! (faceCells (boundary mesh ! q) ! j) = c"
    using cell wfMesh_ranges(3) [OF p(1) q j] by simp
  have qq: "q < length (sBoundary (tsfP w))"
    using q onMesh_sizes(2) [OF p(2)] by simp
  from u qq cp have all: "\<forall>x \<in> set (patchValues (sBoundary (tsfP w) ! q)). x = c"
    "\<forall>x \<in> set (patchValues (sBoundary (tsfN w) ! q)). x = c"
    "\<forall>x \<in> set (patchNeighbourField (vBoundary (vf w) ! q)). x = c"
    by (simp_all add: uniform_def)
  have "j < length (patchValues (sBoundary (tsfP w) ! q))"
    "j < length (patchValues (sBoundary (tsfN w) ! q))"
    "j < length (patchNeighbourField (vBoundary (vf w) ! q))"
    using j onMesh_sizes(3) [OF p(2) q] onMesh_sizes(3) [OF p(3) q] p(7) [OF q cp] by simp_all
  with all have "patchValues (sBoundary (tsfP w) ! q) ! j = c"
    "patchValues (sBoundary (tsfN w) ! q) ! j = c"
    "patchNeighbourField (vBoundary (vf w) ! q) ! j = c"
    by simp_all
  with own show "patchValues (sBoundary (tsfP (calcLimiterScalar mesh w)) ! q) ! j = 0"
    using lf
    by (auto simp add: scalar_coupled_face [OF wf q cp j] coupledValueScalar_def Let_def)
next
  fix q
  assume "q < length (boundary mesh)" and "\<not> coupled (sBoundary (tsfP w) ! q)"
  then show "sBoundary (tsfP (calcLimiterScalar mesh w)) ! q = sBoundary (tsfP w) ! q"
    by (rule scalar_other_patch [OF wf])
qed

theorem constant_preserved_witness:
  "wellFormed mesh3 (u3 (1 / 10) 9 (scheme3 1)) \<and> uniform (1 / 10) (u3 (1 / 10) 9 (scheme3 1)) \<and>
   (limFac (scheme (u3 (1 / 10) 9 (scheme3 1))) = 0 \<or>
    limFac (scheme (u3 (1 / 10) 9 (scheme3 1))) = 1) \<and>
   sInternal (tsfP (calcLimiterScalar mesh3 (u3 (1 / 10) 9 (scheme3 1)))) ! 0 = 0 \<and>
   sInternal (tsfP (calcLimiterScalar mesh3 (u3 (1 / 10) 9 (scheme3 1)))) ! 1 = 0 \<and>
   patchValues (sBoundary (tsfP (calcLimiterScalar mesh3 (u3 (1 / 10) 9 (scheme3 1)))) ! 1) ! 0 = 0 \<and>
   patchValues (sBoundary (tsfP (calcLimiterScalar mesh3 (u3 (1 / 10) 9 (scheme3 1)))) ! 0) = [9]"
proof -
  have wf: "wellFormed mesh3 (u3 (1 / 10) 9 (scheme3 1))" by code_simp
  have u: "uniform (1 / 10) (u3 (1 / 10) 9 (scheme3 1))" by code_simp
  have lf: "limFac (scheme (u3 (1 / 10) 9 (scheme3 1))) = 0 \<or>
            limFac (scheme (u3 (1 / 10) 9 (scheme3 1))) = 1"
    by (simp add: u3_def scheme3_def)
  have m: "0 < nInternalFaces mesh3" "1 < nInternalFaces mesh3" "1 < length (boundary mesh3)"
    "0 < length (faceCells (boundary mesh3 ! 1))" "0 < length (boundary mesh3)"
    by (simp_all add: mesh3_def)
  have c: "coupled (sBoundary (tsfP (u3 (1 / 10) 9 (scheme3 1))) ! 1)"
    "\<not> coupled (sBoundary (tsfP (u3 (1 / 10) 9 (scheme3 1))) ! 0)"
    by (simp_all add: u3_def)
  from constant_preserved [OF wf u lf] m c
  have "sInternal (tsfP (calcLimiterScalar mesh3 (u3 (1 / 10) 9 (scheme3 1)))) ! 0 = 0 \<and>
        sInternal (tsfP (calcLimiterScalar mesh3 (u3 (1 / 10) 9 (scheme3 1)))) ! 1 = 0 \<and>
        patchValues (sBoundary (tsfP (calcLimiterScalar mesh3 (u3 (1 / 10) 9 (scheme3 1)))) ! 1) ! 0 = 0 \<and>
        sBoundary (tsfP (calcLimiterScalar mesh3 (u3 (1 / 10) 9 (scheme3 1)))) ! 0
          = sBoundary (tsfP (u3 (1 / 10) 9 (scheme3 1))) ! 0"
    by blast
  with wf u lf show ?thesis by (simp add: u3_def)
qed

text \<open>
  C5, as stated: with the same value \<open>c\<close> in every cell and on every face, calcLimiter
  returns the correction 0 on every face, so that the value of every face is \<open>c\<close>.

  On the small mesh with the value 4 in every cell and on every face, also on the face of
  patch 0, and limiting factor 1: patch 0 is not coupled, calcLimiter does not visit it, and
  its face is returned with the 4 it was given. The correction of that face is not 0, and
  the average of its cell plus the correction is 8.
\<close>

theorem constant_patch_face_counterexample:
  "wellFormed mesh3 (u3 4 4 (scheme3 1)) \<and> uniform 4 (u3 4 4 (scheme3 1)) \<and>
   limFac (scheme (u3 4 4 (scheme3 1))) = 1 \<and>
   \<not> coupled (sBoundary (tsfP (u3 4 4 (scheme3 1))) ! 0) \<and>
   patchValues (sBoundary (tsfP (u3 4 4 (scheme3 1))) ! 0) ! 0 = 4 \<and>
   patchValues (sBoundary (tsfN (u3 4 4 (scheme3 1))) ! 0) ! 0 = 4 \<and>
   faceCells (boundary mesh3 ! 0) ! 0 = 0 \<and>
   internalField (vf (u3 4 4 (scheme3 1))) ! 0 = 4 \<and>
   patchValues (sBoundary (tsfP (calcLimiterScalar mesh3 (u3 4 4 (scheme3 1)))) ! 0) ! 0 = 4 \<and>
   patchValues (sBoundary (tsfP (calcLimiterScalar mesh3 (u3 4 4 (scheme3 1)))) ! 0) ! 0 \<noteq> 0 \<and>
   internalField (vf (u3 4 4 (scheme3 1))) ! 0
     + patchValues (sBoundary (tsfP (calcLimiterScalar mesh3 (u3 4 4 (scheme3 1)))) ! 0) ! 0 = 8"
  by code_simp

subsection \<open>Limiting factor 0\<close>




subsection \<open>The scheme constructed from a mesh and a polynomial order\<close>

text \<open>
  C8: the constructor without an input stream sets the limiting factor to 0 and binds the
  face flux to the field \<^verbatim>\<open>zeroFlux()\<close> allocates, which is 0 on every face while it lives:
  it is deleted, with the temporary that owns it, before the constructor returns. On every
  mesh, for every polynomial order and whatever the heap held before, the reference of the
  constructed scheme names a deleted field, and there is no flux for \<^verbatim>\<open>weights\<close> or
  \<^verbatim>\<open>calcLimiter\<close> to read; the claim has the zero field there and, from it, the correction
  0 on every face.
\<close>

theorem constructed_flux_dangles:
  "limFacOf (fst (mkWENOUpwindFit mesh cpl order h)) = 0 \<and>
   fluxAt (fst (mkWENOUpwindFit mesh cpl order h)) = fst (newField (zeroFlux mesh cpl) h) \<and>
   readField (snd (newField (zeroFlux mesh cpl) h)) (fst (newField (zeroFlux mesh cpl) h))
     = Some (zeroFlux mesh cpl) \<and>
   readField (snd (mkWENOUpwindFit mesh cpl order h))
     (fluxAt (fst (mkWENOUpwindFit mesh cpl order h))) = None \<and>
   schemeOf (snd (mkWENOUpwindFit mesh cpl order h)) (fst (mkWENOUpwindFit mesh cpl order h))
     = None"
  by (simp add: mkWENOUpwindFit_def newField_def deleteField_def readField_def schemeOf_def
        Let_def)

subsection \<open>The limiter coefficients\<close>

text \<open>
  C9: the coefficient \<open>theta\<close> that calcLimiter computes for a cell (in the template: for
  a cell and a component) lies between 0 and 1, for every input: it is the minimum of 1
  and of two values that are 1 or a magnitude.
\<close>

theorem theta_in_unit_interval:
  assumes "cellI < nCells mesh" and "cI < nComp"
  shows "0 \<le> calcThetaScalar mesh ws ! cellI \<and> calcThetaScalar mesh ws ! cellI \<le> 1 \<and>
         0 \<le> calcTheta nComp mesh wv ! cellI ! cI \<and> calcTheta nComp mesh wv ! cellI ! cI \<le> 1"
  using assms thetaInRange_calcTheta [of mesh nComp wv] cellThetaScalar_range
  by (simp add: calcThetaScalar_nth thetaInRange_def)

theorem theta_in_unit_interval_witness:
  "(0::nat) < nCells mesh3 \<and> (1::nat) < 2 \<and>
   0 \<le> calcThetaScalar mesh3 (w3 (scheme3 1)) ! 0 \<and> calcThetaScalar mesh3 (w3 (scheme3 1)) ! 0 \<le> 1 \<and>
   0 \<le> calcTheta 2 mesh3 (v3 (scheme3 1)) ! 0 ! 1 \<and> calcTheta 2 mesh3 (v3 (scheme3 1)) ! 0 ! 1 \<le> 1"
proof -
  have h: "0 < nCells mesh3" "(1::nat) < 2" by (simp_all add: mesh3_def)
  from theta_in_unit_interval [OF h, of "w3 (scheme3 1)" "v3 (scheme3 1)"] h
  show ?thesis by simp
qed

subsection \<open>What the limiter bounds\<close>




subsection \<open>The scalar specialisation and the template\<close>

text \<open>
  C3: on every scalar input the specialisation for scalar fields computes what the
  template computes with one component. \<open>wrapState\<close> turns each scalar of the cell
  field and of the two face fields into a value with that one component; the template
  computes on the wrapped state the same coefficients \<open>theta\<close>, and running it gives the
  wrapped result of the specialisation on every internal face and every patch. The mesh
  has a cell, since the template reads the number of components from the first one.
\<close>

theorem scalar_specialisation_refines_template:
  assumes wf: "wellFormed mesh w" and n: "0 < nCells mesh"
  shows "calcTheta 1 mesh (wrapState w) = map wrap (calcThetaScalar mesh w) \<and>
         calcLimiter mesh (wrapState w) = wrapState (calcLimiterScalar mesh w)"
proof (rule conjI)
  show "calcTheta 1 mesh (wrapState w) = map wrap (calcThetaScalar mesh w)"
    using calcTheta_wrap [OF wf n] by simp
next
  have "wfCmpts (length (internalField (vf (wrapState w)) ! 0)) mesh (wrapState w)"
    using wfCmpts_nComp [OF wellFormed_wrap [OF wf] wfCmpts_wrap [OF n]] wfCmpts_wrap [OF n, of w]
    by (simp del: One_nat_def)
  then have "calcLimiter mesh (wrapState w) = (wrapState w)\<lparr> tsfP := limited mesh (wrapState w) \<rparr>"
    by (intro calcLimiter_closed wellFormed_wrap [OF wf])
  also have "\<dots> = wrapState (w\<lparr> tsfP := limitedScalar mesh w \<rparr>)"
    by (simp only: limited_wrap [OF wf n]) (simp add: wrapState_def)
  also have "\<dots> = wrapState (calcLimiterScalar mesh w)"
    by (simp add: calcLimiterScalar_closed [OF wf])
  finally show "calcLimiter mesh (wrapState w) = wrapState (calcLimiterScalar mesh w)" .
qed

theorem scalar_specialisation_refines_template_witness:
  "wellFormed mesh3 (w3 (scheme3 1)) \<and> 0 < nCells mesh3 \<and>
   calcTheta 1 mesh3 (wrapState (w3 (scheme3 1))) = map wrap (calcThetaScalar mesh3 (w3 (scheme3 1))) \<and>
   calcLimiter mesh3 (wrapState (w3 (scheme3 1))) = wrapState (calcLimiterScalar mesh3 (w3 (scheme3 1)))"
proof -
  have wf: "wellFormed mesh3 (w3 (scheme3 1))" by code_simp
  have n: "0 < nCells mesh3" by (simp add: mesh3_def)
  from scalar_specialisation_refines_template [OF wf n] wf n show ?thesis by simp
qed

end
